theory Spec2Isabelle
  imports Complex_Main
begin

section \<open>Python values shared by the models\<close>

text \<open>
  Exceptions of the Python code are values. \<open>TypeError\<close> carries its message, since
  \<open>autorestore\<close> raises it with two different messages; \<open>ShutilError\<close> is
  \<open>shutil.Error\<close>; \<open>Raised e\<close> is an exception raised by caller-supplied code (the
  body of a \<open>with\<close> block).
\<close>

datatype 'e exn =
    ValueError
  | TypeError string
  | AttributeError
  | IndexError
  | OSError
  | IOError
  | ShutilError
  | LockTimeout
  | Raised 'e

text \<open>
  Array objects (NumPy arrays, the solver's NVector) live in a store: an address holds
  the flat list of the array's elements. Two names for one array are one address.
\<close>

type_synonym 'a heap = "nat \<Rightarrow> 'a list"

text \<open>
  \<open>dst[:] = src\<close> on a one-dimensional array: the contents are replaced, a source
  of length one is broadcast, any other length mismatch raises ValueError. The
  length of \<open>dst\<close> never changes.
\<close>

definition slice_assign :: "'a list \<Rightarrow> 'a list \<Rightarrow> 'e exn + 'a list" where
  "slice_assign dst src =
     (if length src = length dst then Inr src
      else if length src = 1 then Inr (replicate (length dst) (hd src))
      else Inl ValueError)"

text \<open>\<open>names.index(k)\<close>: the position of the first occurrence, \<open>None\<close> where Python raises ValueError.\<close>

fun index_of :: "'b list \<Rightarrow> 'b \<Rightarrow> nat option" where
  "index_of [] k = None"
| "index_of (n # ns) k =
     (if n = k then Some 0 else map_option Suc (index_of ns k))"

section \<open>Recarraylink (cvodeint/namedcvodeint.py)\<close>

text \<open>
  A Recarraylink holds \<open>_x\<close> (the array-like object it was given, shared with its
  owner), \<open>_xa = np.array(x)\<close> (a copy of its own) and \<open>_xr\<close>, the record view of
  \<open>_xa\<close> through the dtype. The dtype is the list of its field names; every field is
  one float and the array holds one record, as the state vector of a Namedcvodeint
  does, so field number \<open>i\<close> is element \<open>i\<close> of the flat array.
\<close>

record recarraylink =
  link_x :: nat
  link_xa :: nat
  link_names :: "string list"

text \<open>
  \<open>__getattr__\<close>: refresh \<open>_xa\<close> from \<open>_x\<close>, then read the field of \<open>_xr\<close>. A
  ValueError of either step is caught and the lookup goes to
  \<open>super().__getattr__\<close>, which \<open>object\<close> does not have: AttributeError.
\<close>

definition getattr_link ::
  "recarraylink \<Rightarrow> string \<Rightarrow> 'a heap \<Rightarrow> ('e exn + 'a) \<times> 'a heap" where
  "getattr_link r attr h =
     (case (slice_assign (h (link_xa r)) (h (link_x r)) :: 'e exn + 'a list) of
        Inl e \<Rightarrow> (Inl AttributeError, h)
      | Inr new \<Rightarrow>
          (let h1 = h(link_xa r := new) in
           case index_of (link_names r) attr of
             None \<Rightarrow> (Inl AttributeError, h1)
           | Some i \<Rightarrow> (Inr (h1 (link_xa r) ! i), h1)))"

text \<open>
  \<open>__setattr__\<close> in its three steps: \<open>self._xa[:] = self._x\<close>,
  \<open>self._xr[attr] = val\<close>, \<open>self._x[:] = self._xa\<close>. A ValueError of any step
  is caught and the assignment is passed to \<open>object.__setattr__\<close>, which binds an
  ordinary attribute of the link object and touches no array: \<open>PassedOn\<close>.
\<close>

datatype set_result = Written | PassedOn

definition sync_in :: "recarraylink \<Rightarrow> 'a heap \<Rightarrow> 'e exn + 'a heap" where
  "sync_in r h =
     (case slice_assign (h (link_xa r)) (h (link_x r)) of
        Inl e \<Rightarrow> Inl e
      | Inr new \<Rightarrow> Inr (h(link_xa r := new)))"

definition set_field :: "recarraylink \<Rightarrow> string \<Rightarrow> 'a \<Rightarrow> 'a heap \<Rightarrow> 'e exn + 'a heap" where
  "set_field r attr val h =
     (case index_of (link_names r) attr of
        None \<Rightarrow> Inl ValueError
      | Some i \<Rightarrow> Inr (h(link_xa r := (h (link_xa r))[i := val])))"

definition sync_out :: "recarraylink \<Rightarrow> 'a heap \<Rightarrow> 'e exn + 'a heap" where
  "sync_out r h =
     (case slice_assign (h (link_x r)) (h (link_xa r)) of
        Inl e \<Rightarrow> Inl e
      | Inr new \<Rightarrow> Inr (h(link_x r := new)))"

definition setattr_link ::
  "recarraylink \<Rightarrow> string \<Rightarrow> 'a \<Rightarrow> 'a heap \<Rightarrow> set_result \<times> 'a heap" where
  "setattr_link r attr val h =
     (case (sync_in r h :: unit exn + 'a heap) of
        Inl e \<Rightarrow> (PassedOn, h)
      | Inr h1 \<Rightarrow>
          (case (set_field r attr val h1 :: unit exn + 'a heap) of
             Inl e \<Rightarrow> (PassedOn, h1)
           | Inr h2 \<Rightarrow>
               (case (sync_out r h2 :: unit exn + 'a heap) of
                  Inl e \<Rightarrow> (PassedOn, h2)
                | Inr h3 \<Rightarrow> (Written, h3))))"

text \<open>
  The link is well formed on a store when \<open>_x\<close> and \<open>_xa\<close> are two arrays of the
  length of the dtype (\<open>np.array(x)\<close> copies) and the field names differ from each
  other, as NumPy demands of a dtype.
\<close>

definition link_ok :: "recarraylink \<Rightarrow> 'a heap \<Rightarrow> bool" where
  "link_ok r h \<longleftrightarrow>
     link_x r \<noteq> link_xa r \<and> distinct (link_names r) \<and>
     length (h (link_x r)) = length (link_names r) \<and>
     length (h (link_xa r)) = length (link_names r)"

text \<open>
  Python looks an attribute up on the object and its class first and calls
  \<open>__getattr__\<close> only when that fails. The names below are found there: the three
  attributes \<open>__init__\<close> binds, the names of the class body, and the attributes of
  \<open>object\<close>. A field of one of these names is written by \<open>__setattr__\<close> but never
  read through \<open>__getattr__\<close>.
\<close>

definition ordinary_attributes :: "string list" where
  "ordinary_attributes =
     [''_x'', ''_xa'', ''_xr'',
      ''__init__'', ''__getattr__'', ''__setattr__'', ''__array__'', ''__repr__'',
      ''__doc__'', ''__module__'', ''__dict__'', ''__weakref__'',
      ''__class__'', ''__delattr__'', ''__format__'', ''__getattribute__'', ''__hash__'',
      ''__new__'', ''__reduce__'', ''__reduce_ex__'', ''__sizeof__'', ''__str__'',
      ''__subclasshook__'']"

text \<open>
  Reading \<open>link.attr\<close>: \<open>None\<close> is the ordinary attribute of that name (the buffer, a
  method), which is not a field value.
\<close>

definition read_attr ::
  "recarraylink \<Rightarrow> string \<Rightarrow> 'a heap \<Rightarrow> ('e exn + 'a) option \<times> 'a heap" where
  "read_attr r attr h =
     (if attr \<in> set ordinary_attributes then (None, h)
      else (case getattr_link r attr h of (res, h1) \<Rightarrow> (Some res, h1)))"

section \<open>Namedcvodeint (cvodeint/namedcvodeint.py)\<close>

text \<open>
  The right-hand side \<open>f_ode(t, y, ydot, f_data)\<close> writes the rates into \<open>ydot\<close>
  and returns a flag: as a function it returns the new contents of \<open>ydot\<close> and the
  flag, or the exception it raises.
\<close>

type_synonym ('t, 'a, 'd, 'e) rhs =
  "'t \<Rightarrow> 'a list \<Rightarrow> 'a list \<Rightarrow> 'd \<Rightarrow> 'e exn + ('a list \<times> int)"

text \<open>
  The mutable objects: the arrays, the CVODE memory of each integrator (by address)
  and the next unused address.
\<close>

record ('a, 'c) world =
  arrays :: "'a heap"
  solvers :: "nat \<Rightarrow> 'c"
  next_addr :: nat

text \<open>
  A Namedcvodeint object: its attributes are references and never rebound, so the
  object is a value and all change is in the world. \<open>self_y\<close> is the state
  NVector, \<open>self_yr\<close> the Recarraylink over it, \<open>self_pr\<close> the parameter recarray
  (one record of float fields, flat), \<open>dtype_y\<close> and \<open>dtype_p\<close> the field names of
  \<open>self.dtype.y\<close> and \<open>self.dtype.p\<close>. The solver options (chunksize, maxsteps,
  reltol, abstol) are copied from model to model and left out.
\<close>

record ('t, 'a, 'd, 'e) namedcvodeint =
  self_f_ode :: "('t, 'a, 'd, 'e) rhs"
  self_t :: "'t list"
  self_y :: nat
  self_yr :: recarraylink
  self_pr :: nat
  self_cvode_mem :: nat
  dtype_y :: "string list"
  dtype_p :: "string list"

text \<open>\<open>Recarraylink.__init__(x, dtype)\<close>: \<open>_xa = np.array(x)\<close> is a new array.\<close>

definition Recarraylink_init ::
  "nat \<Rightarrow> string list \<Rightarrow> ('a, 'c) world \<Rightarrow> recarraylink \<times> ('a, 'c) world" where
  "Recarraylink_init x dtype w =
     (let a = next_addr w in
      (\<lparr>link_x = x, link_xa = a, link_names = dtype\<rparr>,
       w\<lparr>arrays := (arrays w)(a := arrays w x), next_addr := a + 1\<rparr>))"

text \<open>
  \<open>Namedcvodeint.__init__(f_ode, t, y, p)\<close> with \<open>y\<close> a record array given by its
  values and field names, \<open>p\<close> the address of the parameter array, which the new
  object shares.

  Modelled from the spec: the constructor of the base class Cvodeint is not among
  the sources. It makes the state vector \<open>self.y\<close> a new NVector holding the values
  of \<open>y\<close> and creates a CVODE memory of the object's own (an independent integrator
  instance); \<open>new_cvode\<close> is the content of a newly created CVODE memory.
\<close>

definition Namedcvodeint_init ::
  "'c \<Rightarrow> ('t, 'a, 'd, 'e) rhs \<Rightarrow> 't list \<Rightarrow> 'a list \<Rightarrow> string list \<Rightarrow>
   nat \<Rightarrow> string list \<Rightarrow>
   ('a, 'c) world \<Rightarrow> ('t, 'a, 'd, 'e) namedcvodeint \<times> ('a, 'c) world" where
  "Namedcvodeint_init new_cvode f_ode t y y_names p p_names w =
     (let a = next_addr w;
          w1 = w\<lparr>arrays := (arrays w)(a := y),
                 solvers := (solvers w)(a := new_cvode),
                 next_addr := a + 1\<rparr>;
          (yr, w2) = Recarraylink_init a y_names w1
      in (\<lparr>self_f_ode = f_ode, self_t = t, self_y = a, self_yr = yr, self_pr = p,
           self_cvode_mem = a, dtype_y = y_names, dtype_p = p_names\<rparr>, w2))"

text \<open>\<open>rec[k] = v\<close> on a one-record array with the given field names.\<close>

definition rec_setitem :: "string list \<Rightarrow> string \<Rightarrow> 'a \<Rightarrow> 'a list \<Rightarrow> 'e exn + 'a list" where
  "rec_setitem names k v xs =
     (case index_of names k of
        None \<Rightarrow> Inl ValueError
      | Some i \<Rightarrow> Inr (xs[i := v]))"

subsection \<open>autorestore\<close>

text \<open>
  The loop over \<open>kwargs.items()\<close>; the association list is the dictionary in the
  order the loop visits it. The third test of the source,
  \<open>k not in [self.dtype.y.names + self.dtype.p.names]\<close>, asks whether the string
  \<open>k\<close> is an element of a list whose only element is the concatenated tuple of
  names: the string is \<open>Inl k\<close>, the tuple \<open>Inr\<close> of its names.
\<close>

fun apply_kwargs ::
  "('t, 'a, 'd, 'e) namedcvodeint \<Rightarrow> (string \<times> 'a) list \<Rightarrow> 'a heap \<Rightarrow> 'e exn option \<times> 'a heap" where
  "apply_kwargs m [] h = (None, h)"
| "apply_kwargs m ((k, v) # kvs) h =
     (if k \<in> set (dtype_p m) \<and> k \<notin> set (dtype_y m) then
        (case rec_setitem (dtype_p m) k v (h (self_pr m)) of
           Inl e \<Rightarrow> (Some e, h)
         | Inr new \<Rightarrow> apply_kwargs m kvs (h(self_pr m := new)))
      else if k \<in> set (dtype_y m) \<and> k \<notin> set (dtype_p m) then
        apply_kwargs m kvs (snd (setattr_link (self_yr m) k v h))
      else if (Inl k :: string + string list) \<notin> set [Inr (dtype_y m @ dtype_p m)] then
        (Some (TypeError (''Key '' @ k @ '' not in parameter or rate vectors'')), h)
      else
        (Some (TypeError (''Key '' @ k @ '' occurs in both parameter and state vectors'')), h))"

text \<open>
  Everything before \<open>try: yield\<close>. \<open>_p\<close> and \<open>_y\<close> are flat lists of floats. For
  \<open>_y\<close> the source retries after a ValueError with \<open>_y.squeeze()\<close>, which leaves a
  flat list that failed (its length is neither that of \<open>y\<close> nor one) as it is; its
  other retry, after a TypeError, is for a record value and does not arise for a
  list of floats.
\<close>

definition autorestore_enter ::
  "('t, 'a, 'd, 'e) namedcvodeint \<Rightarrow> 'a list option \<Rightarrow> 'a list option \<Rightarrow> (string \<times> 'a) list \<Rightarrow>
   'a heap \<Rightarrow> 'e exn option \<times> 'a heap" where
  "autorestore_enter m p_opt y_opt kwargs h =
     (case (case p_opt of
              None \<Rightarrow> Inr h
            | Some p \<Rightarrow>
                (case slice_assign (h (self_pr m)) p of
                   Inl e \<Rightarrow> Inl e
                 | Inr new \<Rightarrow> Inr (h(self_pr m := new)))) of
        Inl e \<Rightarrow> (Some e, h)
      | Inr h1 \<Rightarrow>
          (case (case y_opt of
                   None \<Rightarrow> Inr h1
                 | Some y \<Rightarrow>
                     (case (slice_assign (h1 (self_y m)) y :: 'e exn + 'a list) of
                        Inl e \<Rightarrow>
                          (case slice_assign (h1 (self_y m)) y of
                             Inl e' \<Rightarrow> Inl e'
                           | Inr new \<Rightarrow> Inr (h1(self_y m := new)))
                      | Inr new \<Rightarrow> Inr (h1(self_y m := new)))) of
             Inl e \<Rightarrow> (Some e, h1)
           | Inr h2 \<Rightarrow> apply_kwargs m kwargs h2))"

text \<open>
  The context manager with its body. The body is any code: it maps the world to a
  world and returns normally (\<open>None\<close>) or raises. The \<open>finally\<close> block calls
  \<open>self.RootInit(0)\<close> and assigns \<open>self.y[:], self.pr[:] = oldy, oldpar\<close>, left
  to right; an exception of the \<open>finally\<close> block replaces the body's.

  \<open>RootInit\<close> is a method of the base class Cvodeint, which is not among the
  sources: it is a parameter, a function of the number of root functions on the CVODE
  memory.
\<close>

definition autorestore ::
  "(nat \<Rightarrow> 'c \<Rightarrow> 'c) \<Rightarrow> ('t, 'a, 'd, 'e) namedcvodeint \<Rightarrow> 'a list option \<Rightarrow> 'a list option \<Rightarrow>
   (string \<times> 'a) list \<Rightarrow> (('a, 'c) world \<Rightarrow> 'e exn option \<times> ('a, 'c) world) \<Rightarrow>
   ('a, 'c) world \<Rightarrow> 'e exn option \<times> ('a, 'c) world" where
  "autorestore RootInit m p_opt y_opt kwargs body w =
     (let oldy = arrays w (self_y m); oldpar = arrays w (self_pr m) in
      case autorestore_enter m p_opt y_opt kwargs (arrays w) of
        (Some e, h1) \<Rightarrow> (Some e, w\<lparr>arrays := h1\<rparr>)
      | (None, h1) \<Rightarrow>
          (case body (w\<lparr>arrays := h1\<rparr>) of
             (out, w2) \<Rightarrow>
               (let w3 = w2\<lparr>solvers := (solvers w2)
                            (self_cvode_mem m := RootInit 0 (solvers w2 (self_cvode_mem m)))\<rparr>
                in case slice_assign (arrays w3 (self_y m)) oldy of
                     Inl e \<Rightarrow> (Some e, w3)
                   | Inr ny \<Rightarrow>
                       (let w4 = w3\<lparr>arrays := (arrays w3)(self_y m := ny)\<rparr>
                        in case slice_assign (arrays w4 (self_pr m)) oldpar of
                             Inl e \<Rightarrow> (Some e, w4)
                           | Inr np \<Rightarrow> (out, w4\<lparr>arrays := (arrays w4)(self_pr m := np)\<rparr>)))))"

subsection \<open>clamp and dynclamp\<close>

text \<open>
  The right-hand side of an assignment to array elements: a number, or an array of
  numbers.
\<close>

datatype 'a operand = Scalar 'a | Elements "'a list"

text \<open>
  \<open>a[i] = v\<close> with an array \<open>i\<close> of indices: a scalar \<open>v\<close> goes to every index,
  an array \<open>v\<close> of as many values as there are indices goes there element by element
  (later indices win), an array of one value is broadcast like a scalar; any other
  array raises ValueError, an index out of bounds IndexError.
\<close>

definition fancy_assign :: "'a list \<Rightarrow> nat list \<Rightarrow> 'a operand \<Rightarrow> 'e exn + 'a list" where
  "fancy_assign xs i v =
     (if \<exists>j \<in> set i. length xs \<le> j then Inl IndexError
      else (case v of
              Scalar x \<Rightarrow> Inr (fold (\<lambda>j ys. ys[j := x]) i xs)
            | Elements vs \<Rightarrow>
                if length vs = length i then Inr (fold (\<lambda>(j, x) ys. ys[j := x]) (zip i vs) xs)
                else if length vs = 1 then Inr (fold (\<lambda>j ys. ys[j := hd vs]) i xs)
                else Inl ValueError))"

text \<open>
  The right-hand side \<open>clamped(t, y, ydot, f_data)\<close> that \<open>clamp\<close> defines, for the
  values that the variables \<open>i\<close> and \<open>v\<close> of \<open>clamp\<close> have when it is called:
  \<open>y_ = np.copy(y)\<close>, \<open>y_[i] = v\<close>, \<open>self.f_ode(t, y_, ydot, f_data)\<close>,
  \<open>ydot[i] = 0\<close>, \<open>return 0\<close>.
\<close>

definition clamped_rhs ::
  "('t, 'a::zero, 'd, 'e) rhs \<Rightarrow> nat list \<Rightarrow> 'a operand \<Rightarrow> ('t, 'a, 'd, 'e) rhs" where
  "clamped_rhs f_ode i v t y ydot f_data =
     (case fancy_assign y i v of
        Inl e \<Rightarrow> Inl e
      | Inr y_ \<Rightarrow>
          (case f_ode t y_ ydot f_data of
             Inl e \<Rightarrow> Inl e
           | Inr (ydot1, flag) \<Rightarrow>
               (case fancy_assign ydot1 i (Scalar 0) of
                  Inl e \<Rightarrow> Inl e
                | Inr ydot2 \<Rightarrow> Inr (ydot2, 0))))"

text \<open>\<open>[names.index(k) for k in keys]\<close>: ValueError at the first key that is no name.\<close>

fun indices :: "string list \<Rightarrow> string list \<Rightarrow> 'e exn + nat list" where
  "indices names [] = Inr []"
| "indices names (k # ks) =
     (case index_of names k of
        None \<Rightarrow> Inl ValueError
      | Some j \<Rightarrow>
          (case indices names ks of
             Inl e \<Rightarrow> Inl e
           | Inr js \<Rightarrow> Inr (j # js)))"

text \<open>\<open>for k, v in kwargs.items(): y[k] = v\<close> on a record array.\<close>

fun set_items :: "string list \<Rightarrow> (string \<times> 'a) list \<Rightarrow> 'a list \<Rightarrow> 'e exn + 'a list" where
  "set_items names [] xs = Inr xs"
| "set_items names ((k, v) # kvs) xs =
     (case rec_setitem names k v xs of
        Inl e \<Rightarrow> Inl e
      | Inr new \<Rightarrow> set_items names kvs new)"

text \<open>
  ``Disable any hard-coded stimulus protocol'':
  \<open>if "stim_amplitude" in clamped.dtype.p.names: clamped.pr.stim_amplitude = 0\<close>.
\<close>

definition disable_stimulus ::
  "('t, 'a::zero, 'd, 'e) namedcvodeint \<Rightarrow> 'a heap \<Rightarrow> 'e exn + 'a heap" where
  "disable_stimulus clamped h =
     (if ''stim_amplitude'' \<in> set (dtype_p clamped) then
        (case rec_setitem (dtype_p clamped) ''stim_amplitude'' 0 (h (self_pr clamped)) of
           Inl e \<Rightarrow> Inl e
         | Inr new \<Rightarrow> Inr (h(self_pr clamped := new)))
      else Inr h)"

text \<open>
  \<open>clamp\<close> up to \<open>try: yield clamped\<close>: the derived model and the world in which
  the block is entered. The keyword arguments are the dictionary in the order of its
  \<open>keys()\<close>, \<open>values()\<close> and \<open>items()\<close>, which agree.

  The function \<open>clamped\<close> reads the variables \<open>i\<close> and \<open>v\<close> of \<open>clamp\<close> when the
  solver calls it, which is after \<open>clamp\<close> has run its loop
  \<open>for k, v in kwargs.items(): y[k] = v\<close>. The loop assigns \<open>v\<close> again: what
  \<open>clamped\<close> finds in \<open>v\<close> is the value of the last keyword argument, a number, and
  only when there are no keyword arguments the array \<open>np.array(kwargs.values())\<close>,
  which is empty then.
\<close>

definition clamp_enter ::
  "'c \<Rightarrow> ('t, 'a::zero, 'd, 'e) namedcvodeint \<Rightarrow> (string \<times> 'a) list \<Rightarrow> ('a, 'c) world \<Rightarrow>
   'e exn + (('t, 'a, 'd, 'e) namedcvodeint \<times> ('a, 'c) world)" where
  "clamp_enter new_cvode m kwargs w =
     (case indices (dtype_y m) (map fst kwargs) of
        Inl e \<Rightarrow> Inl e
      | Inr i \<Rightarrow>
          (let v = (if kwargs = [] then Elements [] else Scalar (snd (last kwargs))) in
           case set_items (dtype_y m) kwargs (arrays w (self_y m)) of
             Inl e \<Rightarrow> Inl e
           | Inr y \<Rightarrow>
               (let (clamped, w1) =
                      Namedcvodeint_init new_cvode (clamped_rhs (self_f_ode m) i v) (self_t m)
                        y (dtype_y m) (self_pr m) (dtype_p m) w
                in case disable_stimulus clamped (arrays w1) of
                     Inl e \<Rightarrow> Inl e
                   | Inr h \<Rightarrow> Inr (clamped, w1\<lparr>arrays := h\<rparr>))))"

text \<open>\<open>rec.name\<close> on a record array: the field, AttributeError when there is none.\<close>

definition rec_getattr :: "string list \<Rightarrow> string \<Rightarrow> 'a list \<Rightarrow> 'e exn + 'a" where
  "rec_getattr names k xs =
     (case index_of names k of
        None \<Rightarrow> Inl AttributeError
      | Some i \<Rightarrow> Inr (xs ! i))"

text \<open>
  \<open>Cellmlmodel.dynclamp\<close> (physmod/cellmlmodel.py). Its right-hand side
  \<open>dynclamped\<close> calls \<open>self.f_ode\<close> and subtracts the clamping current from two
  rates; the arithmetic is that of the value type.
\<close>

definition dynclamped_rhs ::
  "('t, 'a::{minus,times,inverse}, 'd, 'e) rhs \<Rightarrow> nat \<Rightarrow> nat \<Rightarrow> 'a \<Rightarrow> 'a \<Rightarrow> 'a \<Rightarrow>
   ('t, 'a, 'd, 'e) rhs" where
  "dynclamped_rhs f_ode iV iion setpoint R scale t y ydot f_data =
     (case f_ode t y ydot f_data of
        Inl e \<Rightarrow> Inl e
      | Inr (ydot1, flag) \<Rightarrow>
          (if length y \<le> iV \<or> length ydot1 \<le> iV \<or> length ydot1 \<le> iion then Inl IndexError
           else (let I_app = (y ! iV - setpoint) / R;
                     ydot2 = ydot1[iV := ydot1 ! iV - I_app];
                     ydot3 = ydot2[iion := ydot2 ! iion - I_app * scale]
                 in Inr (ydot3, 0))))"

definition default_scale :: "string list \<Rightarrow> 'a::{times,inverse} list \<Rightarrow> 'e exn + 'a" where
  "default_scale names p =
     (case rec_getattr names ''Acap'' p of Inl e \<Rightarrow> Inl e | Inr Acap \<Rightarrow>
      case rec_getattr names ''Cm'' p of Inl e \<Rightarrow> Inl e | Inr Cm \<Rightarrow>
      case rec_getattr names ''Vmyo'' p of Inl e \<Rightarrow> Inl e | Inr Vmyo \<Rightarrow>
      case rec_getattr names ''F'' p of Inl e \<Rightarrow> Inl e | Inr F \<Rightarrow>
        Inr (Acap * Cm / (Vmyo * F)))"

definition dynclamp_enter ::
  "'c \<Rightarrow> ('t, 'a::{zero,minus,times,inverse}, 'd, 'e) namedcvodeint \<Rightarrow> 'a \<Rightarrow> 'a \<Rightarrow> string \<Rightarrow>
   string \<Rightarrow> 'a option \<Rightarrow> ('a, 'c) world \<Rightarrow>
   'e exn + (('t, 'a, 'd, 'e) namedcvodeint \<times> ('a, 'c) world)" where
  "dynclamp_enter new_cvode m setpoint R V ion scale_opt w =
     (case (case scale_opt of
              None \<Rightarrow> default_scale (dtype_p m) (arrays w (self_pr m))
            | Some sc \<Rightarrow> Inr sc) of
        Inl e \<Rightarrow> Inl e
      | Inr scale \<Rightarrow>
          (case index_of (dtype_y m) V of
             None \<Rightarrow> Inl ValueError
           | Some iV \<Rightarrow>
               (case index_of (dtype_y m) ion of
                  None \<Rightarrow> Inl ValueError
                | Some iion \<Rightarrow>
                    (let y = arrays w (self_y m);
                         (clamped, w1) =
                           Namedcvodeint_init new_cvode
                             (dynclamped_rhs (self_f_ode m) iV iion setpoint R scale) (self_t m)
                             y (dtype_y m) (self_pr m) (dtype_p m) w
                     in case disable_stimulus clamped (arrays w1) of
                          Inl e \<Rightarrow> Inl e
                        | Inr h \<Rightarrow> Inr (clamped, w1\<lparr>arrays := h\<rparr>)))))"

text \<open>
  The \<open>finally\<close> block of both context managers:
  \<open>for k in clamped.dtype.y.names: if k in self.dtype.y.names:
  setattr(self.yr, k, getattr(clamped.yr, k))\<close>. State names are not names of
  ordinary attributes of a link, so \<open>getattr\<close> arrives at \<open>__getattr__\<close>.
\<close>

fun copy_back ::
  "('t, 'a, 'd, 'e) namedcvodeint \<Rightarrow> ('t, 'a, 'd, 'e) namedcvodeint \<Rightarrow> string list \<Rightarrow> 'a heap \<Rightarrow>
   'e exn option \<times> 'a heap" where
  "copy_back self clamped [] h = (None, h)"
| "copy_back self clamped (k # ks) h =
     (if k \<in> set (dtype_y self) then
        (case getattr_link (self_yr clamped) k h of
           (Inl e, h1) \<Rightarrow> (Some e, h1)
         | (Inr val, h1) \<Rightarrow>
             copy_back self clamped ks (snd (setattr_link (self_yr self) k val h1)))
      else copy_back self clamped ks h)"

text \<open>
  \<open>try: yield clamped finally: ...\<close> with the body of the \<open>with\<close> block, which is
  given the derived model. An exception of the \<open>finally\<close> block replaces the body's.
\<close>

definition scope ::
  "('t, 'a, 'd, 'e) namedcvodeint \<Rightarrow> ('t, 'a, 'd, 'e) namedcvodeint \<Rightarrow>
   (('t, 'a, 'd, 'e) namedcvodeint \<Rightarrow> ('a, 'c) world \<Rightarrow> 'e exn option \<times> ('a, 'c) world) \<Rightarrow>
   ('a, 'c) world \<Rightarrow> 'e exn option \<times> ('a, 'c) world" where
  "scope self clamped body w =
     (case body clamped w of
        (out, w1) \<Rightarrow>
          (case copy_back self clamped (dtype_y clamped) (arrays w1) of
             (Some e, h) \<Rightarrow> (Some e, w1\<lparr>arrays := h\<rparr>)
           | (None, h) \<Rightarrow> (out, w1\<lparr>arrays := h\<rparr>)))"

definition clamp ::
  "'c \<Rightarrow> ('t, 'a::zero, 'd, 'e) namedcvodeint \<Rightarrow> (string \<times> 'a) list \<Rightarrow>
   (('t, 'a, 'd, 'e) namedcvodeint \<Rightarrow> ('a, 'c) world \<Rightarrow> 'e exn option \<times> ('a, 'c) world) \<Rightarrow>
   ('a, 'c) world \<Rightarrow> 'e exn option \<times> ('a, 'c) world" where
  "clamp new_cvode m kwargs body w =
     (case clamp_enter new_cvode m kwargs w of
        Inl e \<Rightarrow> (Some e, w)
      | Inr (clamped, w1) \<Rightarrow> scope m clamped body w1)"

definition dynclamp ::
  "'c \<Rightarrow> ('t, 'a::{zero,minus,times,inverse}, 'd, 'e) namedcvodeint \<Rightarrow> 'a \<Rightarrow> 'a \<Rightarrow> string \<Rightarrow>
   string \<Rightarrow> 'a option \<Rightarrow>
   (('t, 'a, 'd, 'e) namedcvodeint \<Rightarrow> ('a, 'c) world \<Rightarrow> 'e exn option \<times> ('a, 'c) world) \<Rightarrow>
   ('a, 'c) world \<Rightarrow> 'e exn option \<times> ('a, 'c) world" where
  "dynclamp new_cvode m setpoint R V ion scale_opt body w =
     (case dynclamp_enter new_cvode m setpoint R V ion scale_opt w of
        Inl e \<Rightarrow> (Some e, w)
      | Inr (clamped, w1) \<Rightarrow> scope m clamped body w1)"

text \<open>
  The object \<open>Namedcvodeint(f, self.t, y, self.pr, ...)\<close> that \<open>clamp\<close> and
  \<open>dynclamp\<close> construct from a model \<open>m\<close>, when \<open>n\<close> is the next unused address:
  state vector and CVODE memory of its own, the parameter array of \<open>m\<close>.
\<close>

definition derived ::
  "('t, 'a, 'd, 'e) namedcvodeint \<Rightarrow> ('t, 'a, 'd, 'e) rhs \<Rightarrow> nat \<Rightarrow> ('t, 'a, 'd, 'e) namedcvodeint" where
  "derived m f n =
     \<lparr>self_f_ode = f, self_t = self_t m, self_y = n,
      self_yr = \<lparr>link_x = n, link_xa = n + 1, link_names = dtype_y m\<rparr>,
      self_pr = self_pr m, self_cvode_mem = n, dtype_y = dtype_y m, dtype_p = dtype_p m\<rparr>"

text \<open>The arrays of two links are four different arrays.\<close>

definition links_apart :: "recarraylink \<Rightarrow> recarraylink \<Rightarrow> bool" where
  "links_apart r c \<longleftrightarrow>
     link_x c \<noteq> link_x r \<and> link_x c \<noteq> link_xa r \<and>
     link_xa c \<noteq> link_x r \<and> link_xa c \<noteq> link_xa r"

text \<open>
  A model is well formed in a world when its link is the link
  \<open>Recarraylink(self.y, y.dtype)\<close> that \<open>__init__\<close> made (over \<open>self.y\<close>, with
  the state names, no state name being the name of an ordinary attribute of the
  link), \<open>self.pr\<close> is an array apart from the state vector and the link's copy, with
  one entry for each parameter name, and the three arrays are allocated.
\<close>

definition model_ok :: "('t, 'a, 'd, 'e) namedcvodeint \<Rightarrow> ('a, 'c) world \<Rightarrow> bool" where
  "model_ok m w \<longleftrightarrow>
     link_ok (self_yr m) (arrays w) \<and>
     link_x (self_yr m) = self_y m \<and> link_names (self_yr m) = dtype_y m \<and>
     (\<forall>k \<in> set (dtype_y m). k \<notin> set ordinary_attributes) \<and>
     self_pr m \<noteq> self_y m \<and> self_pr m \<noteq> link_xa (self_yr m) \<and>
     distinct (dtype_p m) \<and> length (arrays w (self_pr m)) = length (dtype_p m) \<and>
     self_y m < next_addr w \<and> link_xa (self_yr m) < next_addr w \<and> self_pr m < next_addr w"

subsection \<open>A model to run the definitions on\<close>

text \<open>
  The van der Pol model of \<open>Namedcvodeint.example()\<close>: state \<open>x = -2, y = 0\<close>; the
  parameter names and values are arguments (the example has \<open>epsilon = 1\<close>), and the
  right-hand side has \<open>epsilon\<close> fixed at 1. Reals stand for the floats; the CVODE
  memory is the number of root functions, which \<open>RootInit\<close> sets.
\<close>

definition vanderpol :: "(real, real, unit, unit) rhs" where
  "vanderpol t y ydot f_data =
     (if length y < 2 \<or> length ydot < 2 then Inl IndexError
      else Inr (ydot[0 := y ! 1, 1 := 1 * (1 - y ! 0 * y ! 0) * y ! 1 - y ! 0], 0))"

definition vdp :: "string list \<Rightarrow> (real, real, unit, unit) namedcvodeint" where
  "vdp p_names =
     \<lparr>self_f_ode = vanderpol, self_t = [0, 1], self_y = 0,
      self_yr = \<lparr>link_x = 0, link_xa = 1, link_names = [''x'', ''y'']\<rparr>,
      self_pr = 2, self_cvode_mem = 0, dtype_y = [''x'', ''y''], dtype_p = p_names\<rparr>"

definition vdp_world :: "real list \<Rightarrow> (real, nat) world" where
  "vdp_world p =
     \<lparr>arrays = (\<lambda>_. [])(0 := [-2, 0], 1 := [-2, 0], 2 := p),
      solvers = (\<lambda>_. 0), next_addr = 3\<rparr>"

text \<open>
  The models that \<open>clamp(x=0.5)\<close> and \<open>dynclamp(-140, scale=0)\<close> (with \<open>V = x\<close>,
  \<open>ion = y\<close>) derive from it when 3 is the next unused address, and a body for their
  \<open>with\<close> blocks, which leaves the derived model's state at \<open>x = 0.5, y = 7\<close> and
  raises.
\<close>

definition vdp_clamped :: "string list \<Rightarrow> (real, real, unit, unit) namedcvodeint" where
  "vdp_clamped p_names = derived (vdp p_names) (clamped_rhs vanderpol [0] (Scalar (1 / 2))) 3"

definition vdp_dynclamped :: "string list \<Rightarrow> (real, real, unit, unit) namedcvodeint" where
  "vdp_dynclamped p_names =
     derived (vdp p_names) (dynclamped_rhs vanderpol 0 1 (- 140) (1 / 50) 0) 3"

definition vdp_body ::
  "(real, real, unit, unit) namedcvodeint \<Rightarrow> (real, nat) world \<Rightarrow>
   unit exn option \<times> (real, nat) world" where
  "vdp_body c w = (Some (Raised ()), w\<lparr>arrays := (arrays w)(self_y c := [1 / 2, 7])\<rparr>)"

text \<open>
  A model with three state variables \<open>a = 5, b = 6, c = 9\<close> and one parameter, whose
  rate of \<open>c\<close> tells the values of \<open>a\<close> and \<open>b\<close> apart: \<open>10 * a + b\<close>.
\<close>

definition chain :: "(real, real, unit, unit) rhs" where
  "chain t y ydot f_data =
     (if length y < 3 \<or> length ydot < 3 then Inl IndexError
      else Inr (ydot[0 := y ! 1, 1 := y ! 2, 2 := 10 * y ! 0 + y ! 1], 0))"

definition abc :: "(real, real, unit, unit) namedcvodeint" where
  "abc =
     \<lparr>self_f_ode = chain, self_t = [0, 1], self_y = 0,
      self_yr = \<lparr>link_x = 0, link_xa = 1, link_names = [''a'', ''b'', ''c'']\<rparr>,
      self_pr = 2, self_cvode_mem = 0, dtype_y = [''a'', ''b'', ''c''], dtype_p = [''k'']\<rparr>"

definition abc_world :: "(real, nat) world" where
  "abc_world =
     \<lparr>arrays = (\<lambda>_. [])(0 := [5, 6, 9], 1 := [5, 6, 9], 2 := [1]),
      solvers = (\<lambda>_. 0), next_addr = 3\<rparr>"

text \<open>
  What a caller sees of the model that \<open>clamp\<close> hands to its \<open>with\<close> block: the
  initial state, and the result of its right-hand side on a working state.
\<close>

definition observe ::
  "unit exn + ((real, real, unit, unit) namedcvodeint \<times> (real, nat) world) \<Rightarrow> real list \<Rightarrow>
   (real list \<times> (unit exn + (real list \<times> int))) option" where
  "observe entered y =
     (case entered of
        Inl e \<Rightarrow> None
      | Inr (clamped, w0) \<Rightarrow>
          Some (arrays w0 (self_y clamped),
                self_f_ode clamped 0 y (replicate (length y) 0) ()))"

section \<open>Job identifiers (GPmapsims/GPutils.py)\<close>

subsection \<open>Strings\<close>

text \<open>\<open>sub in s\<close> for strings.\<close>

definition starts_with :: "string \<Rightarrow> string \<Rightarrow> bool" where
  "starts_with sub s \<longleftrightarrow> take (length sub) s = sub"

fun contains :: "string \<Rightarrow> string \<Rightarrow> bool" where
  "contains sub [] \<longleftrightarrow> sub = []"
| "contains sub (c # cs) \<longleftrightarrow> starts_with sub (c # cs) \<or> contains sub cs"

text \<open>\<open>s.split(sep)\<close> for a separator of one character: never the empty list.\<close>

fun split :: "char \<Rightarrow> string \<Rightarrow> string list" where
  "split sep [] = [[]]"
| "split sep (c # cs) =
     (if c = sep then [] # split sep cs
      else (case split sep cs of
              [] \<Rightarrow> [[c]]
            | p # ps \<Rightarrow> (c # p) # ps))"

text \<open>
  \<open>str(n)\<close> and \<open>int(s)\<close> in base ten. \<open>int\<close> takes white space around the number
  and a sign before it, and raises ValueError (\<open>None\<close>) on anything else.
\<close>

definition digits10 :: string where
  "digits10 = ''0123456789''"

function str_nat :: "nat \<Rightarrow> string" where
  "str_nat n = (if n < 10 then [digits10 ! n] else str_nat (n div 10) @ [digits10 ! (n mod 10)])"
  by pat_completeness auto
termination
  by (relation "measure id") auto

declare str_nat.simps [simp del]

definition py_str :: "int \<Rightarrow> string" where
  "py_str i = (if i < 0 then CHR ''-'' # str_nat (nat (- i)) else str_nat (nat i))"

fun parse_digits :: "nat \<Rightarrow> string \<Rightarrow> nat option" where
  "parse_digits acc [] = Some acc"
| "parse_digits acc (c # cs) =
     (case index_of digits10 c of
        None \<Rightarrow> None
      | Some d \<Rightarrow> parse_digits (10 * acc + d) cs)"

definition is_space :: "char \<Rightarrow> bool" where
  "is_space c \<longleftrightarrow> c \<in> set [CHR '' '', CHR 0x09, CHR 0x0A, CHR 0x0B, CHR 0x0C, CHR 0x0D]"

definition strip :: "string \<Rightarrow> string" where
  "strip s = rev (dropWhile is_space (rev (dropWhile is_space s)))"

definition py_int :: "string \<Rightarrow> int option" where
  "py_int s =
     (case strip s of
        [] \<Rightarrow> None
      | c # cs \<Rightarrow>
          if c = CHR ''-'' then
            (if cs = [] then None else map_option (\<lambda>n. - int n) (parse_digits 0 cs))
          else if c = CHR ''+'' then
            (if cs = [] then None else map_option int (parse_digits 0 cs))
          else map_option int (parse_digits 0 (c # cs)))"

subsection \<open>Files\<close>

text \<open>
  No caller-supplied code runs in this module: its exceptions are of type \<open>unit exn\<close>.
\<close>

text \<open>
  The file system is a tree of directories and regular files (no links, permissions or
  times). A node is known by the names that lead to it from the root; the root is the
  empty list and always a directory. The file system is the list of its nodes, each
  once, in the order in which a directory lists its entries, together with the current
  directory of the process.
\<close>

datatype node = File string | Directory

type_synonym path = "string list"

record filesystem =
  cwd :: path
  nodes :: "(path \<times> node) list"

definition node_at :: "filesystem \<Rightarrow> path \<Rightarrow> node option" where
  "node_at fs p = (if p = [] then Some Directory else map_of (nodes fs) p)"

definition is_dir :: "filesystem \<Rightarrow> path \<Rightarrow> bool" where
  "is_dir fs p \<longleftrightarrow> node_at fs p = Some Directory"

text \<open>
  How the system resolves a path given as a string: from the root when the string
  begins with a slash and from the current directory otherwise, name by name. Each
  name is looked up in a directory, so what has been reached before it must be one;
  an empty name (two slashes in a row, or a slash at the end) and \<open>.\<close> stay there,
  \<open>..\<close> goes to the parent. The empty string resolves to nothing. The node reached
  by the last name need not exist.
\<close>

fun walk :: "filesystem \<Rightarrow> path \<Rightarrow> string list \<Rightarrow> path option" where
  "walk fs p [] = Some p"
| "walk fs p (c # cs) =
     (if \<not> is_dir fs p then None
      else if c = [] \<or> c = ''.'' then walk fs p cs
      else if c = ''..'' then walk fs (butlast p) cs
      else walk fs (p @ [c]) cs)"

definition resolve :: "filesystem \<Rightarrow> string \<Rightarrow> path option" where
  "resolve fs s =
     (if s = [] then None
      else walk fs (if hd s = CHR ''/'' then [] else cwd fs) (split CHR ''/'' s))"

definition stat :: "filesystem \<Rightarrow> string \<Rightarrow> node option" where
  "stat fs s = (case resolve fs s of None \<Rightarrow> None | Some p \<Rightarrow> node_at fs p)"

text \<open>\<open>os.path.exists(s)\<close> and \<open>os.path.isdir(s)\<close>\<close>

definition path_exists :: "filesystem \<Rightarrow> string \<Rightarrow> bool" where
  "path_exists fs s \<longleftrightarrow> stat fs s \<noteq> None"

definition path_isdir :: "filesystem \<Rightarrow> string \<Rightarrow> bool" where
  "path_isdir fs s \<longleftrightarrow> stat fs s = Some Directory"

text \<open>
  \<open>open(s, "w")\<close>: the file is created empty, or emptied when it exists; IOError when
  the path does not resolve or is a directory. The open file is known by its node.
  \<open>f.write(c)\<close> followed by \<open>f.close()\<close> on a file opened in this way leaves \<open>c\<close> as
  its content.
\<close>

definition set_content :: "path \<Rightarrow> string \<Rightarrow> filesystem \<Rightarrow> filesystem" where
  "set_content p c fs =
     fs\<lparr>nodes := map (\<lambda>(q, n). if q = p then (q, File c) else (q, n)) (nodes fs)\<rparr>"

definition open_w :: "string \<Rightarrow> filesystem \<Rightarrow> unit exn + (path \<times> filesystem)" where
  "open_w s fs =
     (case resolve fs s of
        None \<Rightarrow> Inl IOError
      | Some p \<Rightarrow>
          (case node_at fs p of
             Some Directory \<Rightarrow> Inl IOError
           | Some (File old) \<Rightarrow> Inr (p, set_content p [] fs)
           | None \<Rightarrow> Inr (p, fs\<lparr>nodes := nodes fs @ [(p, File [])]\<rparr>)))"

text \<open>\<open>open(s).read()\<close>: IOError unless the path is that of a file.\<close>

definition read_file :: "string \<Rightarrow> filesystem \<Rightarrow> unit exn + string" where
  "read_file s fs =
     (case stat fs s of
        Some (File c) \<Rightarrow> Inr c
      | _ \<Rightarrow> Inl IOError)"

text \<open>\<open>os.remove(s)\<close>: OSError unless the path is that of a file.\<close>

definition remove_node :: "path \<Rightarrow> filesystem \<Rightarrow> filesystem" where
  "remove_node p fs = fs\<lparr>nodes := filter (\<lambda>(q, n). q \<noteq> p) (nodes fs)\<rparr>"

definition remove_file :: "string \<Rightarrow> filesystem \<Rightarrow> unit exn + filesystem" where
  "remove_file s fs =
     (case resolve fs s of
        None \<Rightarrow> Inl OSError
      | Some p \<Rightarrow>
          (case node_at fs p of
             Some (File c) \<Rightarrow> Inr (remove_node p fs)
           | _ \<Rightarrow> Inl OSError))"

text \<open>
  \<open>touch(path)\<close>: \<open>if not os.path.exists(path): open(path, "w").close()\<close>, then
  \<open>os.utime(path, times)\<close>, which changes times only and finds the path there.
\<close>

definition touch :: "string \<Rightarrow> filesystem \<Rightarrow> unit exn + filesystem" where
  "touch s fs =
     (if \<not> path_exists fs s then
        (case open_w s fs of
           Inl e \<Rightarrow> Inl e
         | Inr (p, fs1) \<Rightarrow> Inr fs1)
      else Inr fs)"

text \<open>
  \<open>os.listdir(s)\<close>: the names of the entries of the directory, files and directories
  alike, whatever the spelling of the paths by which they were made; OSError unless
  the path is that of a directory.
\<close>

definition entries :: "filesystem \<Rightarrow> path \<Rightarrow> string list" where
  "entries fs p = map last (filter (\<lambda>q. q \<noteq> [] \<and> butlast q = p) (map fst (nodes fs)))"

definition listdir :: "string \<Rightarrow> filesystem \<Rightarrow> unit exn + string list" where
  "listdir s fs =
     (case resolve fs s of
        None \<Rightarrow> Inl OSError
      | Some p \<Rightarrow> if is_dir fs p then Inr (entries fs p) else Inl OSError)"

text \<open>
  \<open>os.rename(src, dst)\<close>. A file replaces the file at \<open>dst\<close>, if there is one, and
  cannot replace a directory. A directory moves with all that is below it, and the
  current directory with it; it can replace an empty directory only, and cannot move
  below itself. Renaming a node to itself does nothing. All else is OSError.
\<close>

definition below :: "path \<Rightarrow> path \<Rightarrow> bool" where
  "below p q \<longleftrightarrow> length p < length q \<and> take (length p) q = p"

definition reroot :: "path \<Rightarrow> path \<Rightarrow> path \<Rightarrow> path" where
  "reroot p q r = (if r = p \<or> below p r then q @ drop (length p) r else r)"

definition rename :: "string \<Rightarrow> string \<Rightarrow> filesystem \<Rightarrow> unit exn + filesystem" where
  "rename src dst fs =
     (case (resolve fs src, resolve fs dst) of
        (Some p, Some q) \<Rightarrow>
          (case node_at fs p of
             None \<Rightarrow> Inl OSError
           | Some (File c) \<Rightarrow>
               (case node_at fs q of
                  Some Directory \<Rightarrow> Inl OSError
                | Some (File old) \<Rightarrow>
                    if p = q then Inr fs else Inr (set_content q c (remove_node p fs))
                | None \<Rightarrow>
                    Inr (fs\<lparr>nodes := map (\<lambda>(r, n). (reroot p q r, n)) (nodes fs)\<rparr>))
           | Some Directory \<Rightarrow>
               if p = q then Inr fs
               else if p = [] \<or> q = [] \<or> below p q \<or> entries fs q \<noteq> [] then Inl OSError
               else
                 (case node_at fs q of
                    Some (File old) \<Rightarrow> Inl OSError
                  | _ \<Rightarrow>
                      Inr (fs\<lparr>cwd := reroot p q (cwd fs),
                              nodes := map (\<lambda>(r, n). (reroot p q r, n))
                                         (nodes (remove_node q fs))\<rparr>)))
      | _ \<Rightarrow> Inl OSError)"

text \<open>
  \<open>shutil.move(src, dst)\<close>, on one file system. When \<open>dst\<close> is a directory other
  than \<open>src\<close> itself, the destination is the entry of \<open>dst\<close> with the last name of
  \<open>src\<close>, and \<open>shutil.Error\<close> is raised if it exists. The move is \<open>os.rename\<close>.
  Where the renaming fails, \<open>shutil.move\<close> copies and deletes instead, which fails in
  its turn: for a directory that would go below itself with \<open>shutil.Error\<close>, for
  another directory with the OSError of creating the destination, for anything else
  with the IOError of opening the source or the destination. (A directory whose
  destination lies in a directory that does not exist would be copied there after
  the missing directories are made; \<open>find_jobID\<close> has read the job file in the
  directory of its destination, and this case is an OSError here.)
\<close>

definition rstrip_sep :: "string \<Rightarrow> string" where
  "rstrip_sep s = rev (dropWhile (\<lambda>c. c = CHR ''/'') (rev s))"

definition basename :: "string \<Rightarrow> string" where
  "basename s = last (split CHR ''/'' s)"

definition join :: "string \<Rightarrow> string \<Rightarrow> string" where
  "join a b =
     (if b \<noteq> [] \<and> hd b = CHR ''/'' then b
      else if a = [] \<or> last a = CHR ''/'' then a @ b
      else a @ ''/'' @ b)"

definition samefile :: "filesystem \<Rightarrow> string \<Rightarrow> string \<Rightarrow> bool" where
  "samefile fs a b \<longleftrightarrow> path_exists fs a \<and> path_exists fs b \<and> resolve fs a = resolve fs b"

definition destinsrc :: "filesystem \<Rightarrow> string \<Rightarrow> string \<Rightarrow> bool" where
  "destinsrc fs src dst \<longleftrightarrow>
     (case (resolve fs src, resolve fs dst) of
        (Some p, Some q) \<Rightarrow> p = q \<or> below p q
      | _ \<Rightarrow> False)"

definition move :: "string \<Rightarrow> string \<Rightarrow> filesystem \<Rightarrow> unit exn + filesystem" where
  "move src dst fs =
     (let into = (path_isdir fs dst \<and> \<not> samefile fs src dst);
          real_dst = (if into then join dst (basename (rstrip_sep src)) else dst)
      in if into \<and> path_exists fs real_dst then Inl ShutilError
         else
           (case rename src real_dst fs of
              Inr fs1 \<Rightarrow> Inr fs1
            | Inl e \<Rightarrow>
                if path_isdir fs src then
                  (if destinsrc fs src dst then Inl ShutilError else Inl OSError)
                else Inl IOError))"

subsection \<open>find_jobID and end_jobID\<close>

text \<open>The settings dictionary \<open>d\<close>, with \<open>int(d['Nsims'])\<close> for \<open>Nsims\<close>.\<close>

record settings =
  Nsims :: int
  jobfile :: string
  lockfile :: string
  SimID :: string
  errorfile :: string

definition timeout_path :: "settings \<Rightarrow> int \<Rightarrow> string" where
  "timeout_path d jobID = jobfile d @ ''_timeout_'' @ py_str jobID"

definition error_path :: "settings \<Rightarrow> int \<Rightarrow> string" where
  "error_path d jobID = errorfile d @ ''_'' @ py_str jobID @ ''.pickle''"

definition redone_path :: "settings \<Rightarrow> int \<Rightarrow> string" where
  "redone_path d jobID = jobfile d @ ''_redone_'' @ py_str jobID @ ''.pickle''"

text \<open>\<open>int(file.split('_')[-1].split('.')[0])\<close>\<close>

definition file_id :: "string \<Rightarrow> int option" where
  "file_id file = py_int (hd (split CHR ''.'' (last (split CHR ''_'' file))))"

text \<open>
  The first loop: the first file with \<open>error\<close> in its name gives the job id and ends
  the loop. The second loop: every file with \<open>job_timeout\<close> in its name gives the job
  id, the last one stays. \<open>int\<close> may raise ValueError in both.
\<close>

fun scan_errors :: "string list \<Rightarrow> int \<Rightarrow> unit exn + int" where
  "scan_errors [] jobID = Inr jobID"
| "scan_errors (file # files) jobID =
     (if contains ''error'' file then
        (case file_id file of
           None \<Rightarrow> Inl ValueError
         | Some j \<Rightarrow> Inr j)
      else scan_errors files jobID)"

fun scan_timeouts :: "string list \<Rightarrow> int \<Rightarrow> unit exn + int" where
  "scan_timeouts [] jobID = Inr jobID"
| "scan_timeouts (file # files) jobID =
     (if contains ''job_timeout'' file then
        (case file_id file of
           None \<Rightarrow> Inl ValueError
         | Some j \<Rightarrow> scan_timeouts files j)
      else scan_timeouts files jobID)"

text \<open>
  The first branch of the locked part:
  \<open>with open(d['jobfile'], "w") as f: touch(...); f.write(str(jobID+1))\<close>.
\<close>

definition issue :: "settings \<Rightarrow> int \<Rightarrow> filesystem \<Rightarrow> unit exn + (int \<times> filesystem)" where
  "issue d jobID fs =
     (case open_w (jobfile d) fs of
        Inl e \<Rightarrow> Inl e
      | Inr (f, fs1) \<Rightarrow>
          (case touch (timeout_path d jobID) fs1 of
             Inl e \<Rightarrow> Inl e
           | Inr fs2 \<Rightarrow> Inr (jobID, set_content f (py_str (jobID + 1)) fs2)))"

text \<open>
  The second branch: the scan of the directory \<open>SimID\<close> and the two kinds of redo.
  \<open>shuffle\<close> is \<open>np.random.shuffle\<close>: the order it leaves the list in is a parameter.
\<close>

definition redo ::
  "(string list \<Rightarrow> string list) \<Rightarrow> settings \<Rightarrow> int \<Rightarrow> filesystem \<Rightarrow>
   unit exn + (int \<times> filesystem)" where
  "redo shuffle d jobID fs =
     (case listdir (SimID d) fs of
        Inl e \<Rightarrow> Inl e
      | Inr listed \<Rightarrow>
          (let files = shuffle listed in
           case scan_errors files jobID of
             Inl e \<Rightarrow> Inl e
           | Inr jobID1 \<Rightarrow>
               if jobID1 < Nsims d then
                 (case touch (timeout_path d jobID1) fs of
                    Inl e \<Rightarrow> Inl e
                  | Inr fs1 \<Rightarrow>
                      (case move (error_path d jobID1) (redone_path d jobID1) fs1 of
                         Inl e \<Rightarrow> Inl e
                       | Inr fs2 \<Rightarrow> Inr (jobID1, fs2)))
               else
                 (case scan_timeouts files jobID1 of
                    Inl e \<Rightarrow> Inl e
                  | Inr jobID2 \<Rightarrow>
                      if jobID2 < Nsims d then
                        (case touch (timeout_path d jobID2) fs of
                           Inl e \<Rightarrow> Inl e
                         | Inr fs1 \<Rightarrow> Inr (jobID2, fs1))
                      else Inr (Nsims d, fs))))"

text \<open>The body of \<open>with Lock(...)\<close>.\<close>

definition locked_section ::
  "(string list \<Rightarrow> string list) \<Rightarrow> settings \<Rightarrow> filesystem \<Rightarrow> unit exn + (int \<times> filesystem)" where
  "locked_section shuffle d fs =
     (case read_file (jobfile d) fs of
        Inl e \<Rightarrow> Inl e
      | Inr content \<Rightarrow>
          (case py_int content of
             None \<Rightarrow> Inl ValueError
           | Some jobID \<Rightarrow>
               if jobID < Nsims d then issue d jobID fs else redo shuffle d jobID fs))"

text \<open>
  \<open>find_jobID(d)\<close>: the job file is created with \<open>0\<close> in it if the path does not
  exist, then the locked part runs.

  Modelled from the spec: the class \<open>Lock\<close> of cgp.utils.poormanslock is not among
  the sources. It is a file-based advisory lock: the lock is the file \<open>lockfile\<close>,
  created on entry, when it must not exist, and removed on exit; when it exists and
  nobody removes it, the bounded wait ends in a fault.
\<close>

definition lock_enter :: "string \<Rightarrow> filesystem \<Rightarrow> unit exn + filesystem" where
  "lock_enter lockname fs =
     (if path_exists fs lockname then Inl LockTimeout
      else (case open_w lockname fs of
              Inl e \<Rightarrow> Inl e
            | Inr (p, fs1) \<Rightarrow> Inr fs1))"

definition find_jobID ::
  "(string list \<Rightarrow> string list) \<Rightarrow> settings \<Rightarrow> filesystem \<Rightarrow> unit exn + (int \<times> filesystem)" where
  "find_jobID shuffle d fs =
     (case (if \<not> path_exists fs (jobfile d) then
              (case open_w (jobfile d) fs of
                 Inl e \<Rightarrow> Inl e
               | Inr (f, fs1) \<Rightarrow> Inr (set_content f ''0'' fs1))
            else Inr fs) of
        Inl e \<Rightarrow> Inl e
      | Inr fs0 \<Rightarrow>
          (case lock_enter (lockfile d) fs0 of
             Inl e \<Rightarrow> Inl e
           | Inr fs1 \<Rightarrow>
               (case locked_section shuffle d fs1 of
                  Inl e \<Rightarrow> Inl e
                | Inr (jobID, fs2) \<Rightarrow>
                    (case remove_file (lockfile d) fs2 of
                       Inl e \<Rightarrow> Inl e
                     | Inr fs3 \<Rightarrow> Inr (jobID, fs3)))))"

text \<open>\<open>end_jobID(d, jobID)\<close>: \<open>os.remove\<close> of the timeout file.\<close>

definition end_jobID :: "settings \<Rightarrow> int \<Rightarrow> filesystem \<Rightarrow> unit exn + filesystem" where
  "end_jobID d jobID fs = remove_file (timeout_path d jobID) fs"

text \<open>
  \<open>n\<close> calls of \<open>find_jobID\<close> in a row and the job ids they return, and
  \<open>end_jobID\<close> for each job of a list.
\<close>

fun find_jobIDs ::
  "nat \<Rightarrow> (string list \<Rightarrow> string list) \<Rightarrow> settings \<Rightarrow> filesystem \<Rightarrow>
   unit exn + (int list \<times> filesystem)" where
  "find_jobIDs 0 shuffle d fs = Inr ([], fs)"
| "find_jobIDs (Suc n) shuffle d fs =
     (case find_jobID shuffle d fs of
        Inl e \<Rightarrow> Inl e
      | Inr (jobID, fs1) \<Rightarrow>
          (case find_jobIDs n shuffle d fs1 of
             Inl e \<Rightarrow> Inl e
           | Inr (ids, fs2) \<Rightarrow> Inr (jobID # ids, fs2)))"

fun end_jobIDs :: "settings \<Rightarrow> int list \<Rightarrow> filesystem \<Rightarrow> unit exn + filesystem" where
  "end_jobIDs d [] fs = Inr fs"
| "end_jobIDs d (jobID # ids) fs =
     (case end_jobID d jobID fs of
        Inl e \<Rightarrow> Inl e
      | Inr fs1 \<Rightarrow> end_jobIDs d ids fs1)"

text \<open>
  The settings of the module's docstring, and a working directory \<open>/work\<close> that holds
  the given files and directories.
\<close>

definition doc_settings :: settings where
  "doc_settings =
     \<lparr>Nsims = 3, jobfile = ''./job'', lockfile = ''./lock'', SimID = ''.'',
      errorfile = ''./error''\<rparr>"

definition work :: "(string \<times> node) list \<Rightarrow> filesystem" where
  "work held =
     \<lparr>cwd = [''work''],
      nodes = ([''work''], Directory) # map (\<lambda>(name, n). ([''work'', name], n)) held\<rparr>"

section \<open>Recarraylink: synchronisation and round trip\<close>

lemma index_of_Some_iff: "index_of ns k = Some i \<Longrightarrow> i < length ns \<and> ns ! i = k"
  by (induction ns arbitrary: i) (auto split: if_splits)

lemma index_of_None_iff: "index_of ns k = None \<longleftrightarrow> k \<notin> set ns"
  by (induction ns) auto

lemma index_of_mem: "k \<in> set ns \<Longrightarrow> \<exists>i. index_of ns k = Some i"
  using index_of_None_iff [of ns k] by (cases "index_of ns k") auto

lemma slice_assign_same: "length src = length dst \<Longrightarrow> slice_assign dst src = Inr src"
  by (simp add: slice_assign_def)

lemma setattr_link_field:
  assumes "link_x r \<noteq> link_xa r" and "length (h (link_xa r)) = length (h (link_x r))"
    and "index_of (link_names r) f = Some i"
  shows "setattr_link r f v h =
           (Written, h(link_xa r := (h (link_x r))[i := v], link_x r := (h (link_x r))[i := v]))"
  using assms
  by (simp add: setattr_link_def sync_in_def set_field_def sync_out_def slice_assign_same)

lemma getattr_link_field:
  assumes "length (h (link_xa r)) = length (h (link_x r))"
    and "index_of (link_names r) f = Some i"
  shows "getattr_link r f h = (Inr (h (link_x r) ! i), h(link_xa r := h (link_x r)))"
  using assms by (simp add: getattr_link_def slice_assign_same)


text \<open>
  A field that bears the name of an ordinary attribute is not read through the link:
  \<open>link._x\<close> is the buffer itself.
\<close>

lemma read_attr_ordinary:
  "attr \<in> set ordinary_attributes \<Longrightarrow> read_attr r attr h = (None, h)"
  by (simp add: read_attr_def)

lemma read_attr_field:
  assumes "length (h (link_xa r)) = length (h (link_x r))"
    and "index_of (link_names r) f = Some i" and "f \<notin> set ordinary_attributes"
  shows "read_attr r f h = (Some (Inr (h (link_x r) ! i)), h(link_xa r := h (link_x r)))"
  using assms by (simp add: read_attr_def getattr_link_field)

text \<open>
  Claim C3. A named-field write is the three steps in this order: refresh the snapshot
  \<open>_xa\<close> from the live buffer \<open>_x\<close>, set the field in the snapshot, copy the whole
  snapshot back into the buffer. So when the buffer has been overwritten from outside
  with any contents \<open>ys\<close> since the last access (the snapshot still holding what it
  held), the write leaves the buffer at \<open>ys\<close> with only the written field changed,
  and a read of a field right after the outside change, with no write in between,
  returns the value of \<open>ys\<close>.
\<close>

theorem write_resyncs_before_setting:
  fixes h :: "'a heap" and r :: recarraylink
  assumes "link_ok r h" and "length ys = length (link_names r)"
    and "index_of (link_names r) f = Some i"
    and "index_of (link_names r) g = Some j" and "g \<notin> set ordinary_attributes"
  shows "\<exists>h1 h2 h3.
           (sync_in r (h(link_x r := ys)) :: unit exn + 'a heap) = Inr h1 \<and>
           h1 (link_xa r) = ys \<and>
           (set_field r f v h1 :: unit exn + 'a heap) = Inr h2 \<and>
           (sync_out r h2 :: unit exn + 'a heap) = Inr h3 \<and>
           setattr_link r f v (h(link_x r := ys)) = (Written, h3) \<and>
           h3 (link_x r) = ys[i := v] \<and>
           fst (read_attr r g (h(link_x r := ys))) = Some (Inr (ys ! j) :: unit exn + 'a)"
proof -
  let ?h0 = "h(link_x r := ys)"
  from assms(1) have ne: "link_x r \<noteq> link_xa r"
    and lxa: "length (h (link_xa r)) = length (link_names r)"
    by (simp_all add: link_ok_def)
  let ?h1 = "?h0(link_xa r := ys)"
  let ?h2 = "?h1(link_xa r := ys[i := v])"
  let ?h3 = "?h2(link_x r := ys[i := v])"
  have s1: "(sync_in r ?h0 :: unit exn + 'a heap) = Inr ?h1"
    using ne lxa assms(2) by (simp add: sync_in_def slice_assign_same)
  have s2: "(set_field r f v ?h1 :: unit exn + 'a heap) = Inr ?h2"
    using assms(3) by (simp add: set_field_def)
  have s3: "(sync_out r ?h2 :: unit exn + 'a heap) = Inr ?h3"
    using ne assms(2) by (simp add: sync_out_def slice_assign_same)
  have w: "setattr_link r f v ?h0 = (Written, ?h3)"
    by (simp only: setattr_link_def s1 s2 s3 sum.case)
  have rd: "fst (read_attr r g ?h0) = Some (Inr (ys ! j) :: unit exn + 'a)"
    using ne lxa assms(2,4,5) by (simp add: read_attr_field)
  from s1 s2 s3 w rd show ?thesis
    by (intro exI [of _ ?h1] exI [of _ ?h2] exI [of _ ?h3]) simp
qed

text \<open>
  The example of the class's docstring: the state vector is re-initialised to
  \<open>[0, 1, 2]\<close> behind the link's back, then \<open>ral.b = 42\<close>; the buffer is
  \<open>[0, 42, 2]\<close>, and a read of \<open>c\<close> after the re-initialisation gives 2.
\<close>

theorem write_resyncs_before_setting_witness:
  "link_ok \<lparr>link_x = 0, link_xa = 1, link_names = [''a'', ''b'', ''c'']\<rparr>
     ((\<lambda>_. [])(0 := [0, 0, 0 :: int], 1 := [0, 0, 0])) \<and>
   length [0, 1, 2 :: int] = length [''a'', ''b'', ''c''] \<and>
   index_of [''a'', ''b'', ''c''] ''b'' = Some 1 \<and>
   index_of [''a'', ''b'', ''c''] ''c'' = Some 2 \<and>
   ''c'' \<notin> set ordinary_attributes \<and>
   snd (setattr_link \<lparr>link_x = 0, link_xa = 1, link_names = [''a'', ''b'', ''c'']\<rparr> ''b'' 42
      (((\<lambda>_. [])(0 := [0, 0, 0 :: int], 1 := [0, 0, 0]))(0 := [0, 1, 2]))) 0 = [0, 42, 2] \<and>
   fst (read_attr \<lparr>link_x = 0, link_xa = 1, link_names = [''a'', ''b'', ''c'']\<rparr> ''c''
      (((\<lambda>_. [])(0 := [0, 0, 0 :: int], 1 := [0, 0, 0]))(0 := [0, 1, 2])))
     = Some (Inr 2 :: unit exn + int)"
  using write_resyncs_before_setting
    [of "\<lparr>link_x = 0, link_xa = 1, link_names = [''a'', ''b'', ''c'']\<rparr>"
        "(\<lambda>_. [])(0 := [0, 0, 0 :: int], 1 := [0, 0, 0])" "[0, 1, 2]" "''b''" 1 "''c''" 2 42]
  by (simp add: link_ok_def ordinary_attributes_def) force

text \<open>
  Claim C9. For a field name \<open>f\<close> of the layout that attribute lookup passes on to
  \<open>__getattr__\<close> (it is not the name of an ordinary attribute of the link object) and
  every value \<open>v\<close>: after \<open>write(f, v)\<close>, \<open>read(f)\<close> returns \<open>v\<close>; every other
  element of the buffer is what it was, and every other such field reads as before.
\<close>

theorem write_then_read_roundtrip:
  fixes h :: "'a heap" and r :: recarraylink
  assumes "link_ok r h"
    and "f \<in> set (link_names r)" and "f \<notin> set ordinary_attributes"
  shows "fst (setattr_link r f v h) = Written \<and>
         fst (read_attr r f (snd (setattr_link r f v h))) = Some (Inr v :: unit exn + 'a) \<and>
         (\<forall>g \<in> set (link_names r). g \<noteq> f \<longrightarrow> g \<notin> set ordinary_attributes \<longrightarrow>
            fst (read_attr r g (snd (setattr_link r f v h)))
              = (fst (read_attr r g h) :: (unit exn + 'a) option)) \<and>
         (\<forall>j < length (link_names r). link_names r ! j \<noteq> f \<longrightarrow>
            snd (setattr_link r f v h) (link_x r) ! j = h (link_x r) ! j)"
proof -
  from assms(1) have ne: "link_x r \<noteq> link_xa r" and d: "distinct (link_names r)"
    and lx: "length (h (link_x r)) = length (link_names r)"
    and lxa: "length (h (link_xa r)) = length (link_names r)"
    by (simp_all add: link_ok_def)
  from assms(2) obtain i where i: "index_of (link_names r) f = Some i"
    using index_of_mem by fastforce
  then have il: "i < length (link_names r)" and fi: "link_names r ! i = f"
    using index_of_Some_iff by fastforce+
  let ?b = "(h (link_x r))[i := v]"
  let ?h' = "h(link_xa r := ?b, link_x r := ?b)"
  have w: "setattr_link r f v h = (Written, ?h')"
    using ne lx lxa i by (simp add: setattr_link_field)
  have r1: "fst (read_attr r f ?h') = Some (Inr v :: unit exn + 'a)"
    using ne i il lx assms(3) by (simp add: read_attr_field)
  have r2: "fst (read_attr r g ?h') = (fst (read_attr r g h) :: (unit exn + 'a) option)"
    if g: "g \<in> set (link_names r)" "g \<noteq> f" "g \<notin> set ordinary_attributes" for g
  proof -
    from g(1) obtain j where j: "index_of (link_names r) g = Some j"
      using index_of_mem by fastforce
    then have "link_names r ! j = g" using index_of_Some_iff by fastforce
    with fi g(2) have "i \<noteq> j" by auto
    then show ?thesis
      using ne j lx lxa g(3) by (simp add: read_attr_field)
  qed
  have r3: "?h' (link_x r) ! j = h (link_x r) ! j"
    if "j < length (link_names r)" "link_names r ! j \<noteq> f" for j
  proof -
    from that fi have "i \<noteq> j" by auto
    then show ?thesis by simp
  qed
  from w r1 r2 r3 show ?thesis by simp
qed

theorem write_then_read_roundtrip_witness:
  "link_ok \<lparr>link_x = 0, link_xa = 1, link_names = [''x'', ''y'']\<rparr>
     ((\<lambda>_. [])(0 := [-2, 0 :: int], 1 := [-2, 0])) \<and>
   ''x'' \<in> set [''x'', ''y''] \<and> ''x'' \<notin> set ordinary_attributes \<and>
   fst (read_attr \<lparr>link_x = 0, link_xa = 1, link_names = [''x'', ''y'']\<rparr> ''x''
     (snd (setattr_link \<lparr>link_x = 0, link_xa = 1, link_names = [''x'', ''y'']\<rparr> ''x'' 123
        ((\<lambda>_. [])(0 := [-2, 0 :: int], 1 := [-2, 0])))))
     = Some (Inr 123 :: unit exn + int) \<and>
   fst (read_attr \<lparr>link_x = 0, link_xa = 1, link_names = [''x'', ''y'']\<rparr> ''y''
     (snd (setattr_link \<lparr>link_x = 0, link_xa = 1, link_names = [''x'', ''y'']\<rparr> ''x'' 123
        ((\<lambda>_. [])(0 := [-2, 0 :: int], 1 := [-2, 0])))))
     = Some (Inr 0 :: unit exn + int)"
  using write_then_read_roundtrip
    [of "\<lparr>link_x = 0, link_xa = 1, link_names = [''x'', ''y'']\<rparr>"
        "(\<lambda>_. [])(0 := [-2, 0 :: int], 1 := [-2, 0])" "''x''" 123]
  by (simp add: link_ok_def ordinary_attributes_def read_attr_def getattr_link_def
      slice_assign_def)

section \<open>autorestore\<close>

text \<open>
  Claim C1. Whenever the \<open>with\<close> block is entered (the overrides \<open>_p\<close>, \<open>_y\<close>
  and the named ones were applied without an exception), then whatever the body does
  to the world and whether it returns or raises (\<open>out\<close>), the state vector and the
  parameter vector are afterwards what they were at entry, the CVODE memory is what
  \<open>RootInit(0)\<close> makes of it, and the outcome of the whole is the body's outcome.
  The arrays are of fixed length: the body changes their contents only.
\<close>

theorem autorestore_restores:
  fixes w :: "('a, 'c) world" and m :: "('t, 'a, 'd, 'e) namedcvodeint"
  assumes "autorestore_enter m p_opt y_opt kwargs (arrays w) = (None, h1)"
    and "body (w\<lparr>arrays := h1\<rparr>) = (out, w2)"
    and "length (arrays w2 (self_y m)) = length (arrays w (self_y m))"
    and "length (arrays w2 (self_pr m)) = length (arrays w (self_pr m))"
    and "self_y m \<noteq> self_pr m"
  shows "\<exists>w'. autorestore RootInit m p_opt y_opt kwargs body w = (out, w') \<and>
           arrays w' (self_y m) = arrays w (self_y m) \<and>
           arrays w' (self_pr m) = arrays w (self_pr m) \<and>
           solvers w' (self_cvode_mem m) = RootInit 0 (solvers w2 (self_cvode_mem m))"
  using assms
  by (simp add: autorestore_def Let_def slice_assign_same)

text \<open>
  The docstring's examples in one: \<open>autorestore(pr, y0, y=789)\<close> with
  \<open>pr.epsilon = 123\<close> and \<open>y0.x = 456\<close>; the body sets \<open>epsilon = 50\<close>, turns
  two root functions on and raises.
\<close>

theorem autorestore_restores_witness:
  "autorestore_enter (vdp [''epsilon'']) (Some [123]) (Some [456, 0]) [(''y'', 789)]
      (arrays (vdp_world [1]))
     = (None, (\<lambda>_. [])(0 := [456, 789], 1 := [456, 789], 2 := [123])) \<and>
   (\<exists>w'. autorestore (\<lambda>n c. n) (vdp [''epsilon'']) (Some [123]) (Some [456, 0]) [(''y'', 789)]
            (\<lambda>w. (Some (Raised ()), w\<lparr>arrays := (arrays w)(2 := [50]), solvers := (\<lambda>_. 2)\<rparr>))
            (vdp_world [1]) = (Some (Raised ()), w') \<and>
          arrays w' 0 = [-2, 0] \<and> arrays w' 2 = [1] \<and> solvers w' 0 = 0)"
proof -
  have e: "autorestore_enter (vdp [''epsilon'']) (Some [123]) (Some [456, 0]) [(''y'', 789)]
      (arrays (vdp_world [1]))
     = (None :: unit exn option, (\<lambda>_. [])(0 := [456, 789], 1 := [456, 789], 2 := [123]))"
    by (simp add: autorestore_enter_def vdp_def vdp_world_def slice_assign_def
        setattr_link_def sync_in_def set_field_def sync_out_def fun_upd_twist)
  show ?thesis
    using e autorestore_restores [OF e, of
        "\<lambda>w. (Some (Raised ()), w\<lparr>arrays := (arrays w)(2 := [50]), solvers := (\<lambda>_. 2)\<rparr>)"
        "Some (Raised ())" _ "\<lambda>n c. n"]
    by (simp add: vdp_def vdp_world_def)
qed

lemma apply_kwargs_bad:
  assumes "\<not> (k \<in> set (dtype_p m) \<and> k \<notin> set (dtype_y m))"
    and "\<not> (k \<in> set (dtype_y m) \<and> k \<notin> set (dtype_p m))"
    and "apply_kwargs m pre h = (None, h1)"
  shows "\<exists>msg. apply_kwargs m (pre @ (k, v) # post) h = (Some (TypeError msg), h1)"
  using assms(3)
proof (induction pre arbitrary: h)
  case Nil
  with assms(1,2) show ?case by auto
next
  case (Cons kv pre)
  obtain k' v' where kv: "kv = (k', v')" by (cases kv)
  consider (p) "k' \<in> set (dtype_p m) \<and> k' \<notin> set (dtype_y m)"
    | (y) "\<not> (k' \<in> set (dtype_p m) \<and> k' \<notin> set (dtype_y m))"
          "k' \<in> set (dtype_y m) \<and> k' \<notin> set (dtype_p m)"
    | (bad) "\<not> (k' \<in> set (dtype_p m) \<and> k' \<notin> set (dtype_y m))"
          "\<not> (k' \<in> set (dtype_y m) \<and> k' \<notin> set (dtype_p m))"
    by blast
  then show ?case
  proof cases
    case p
    show ?thesis
    proof (cases "rec_setitem (dtype_p m) k' v' (h (self_pr m)) :: 'd exn + 'b list")
      case (Inl e)
      with p Cons.prems kv show ?thesis by simp
    next
      case (Inr new)
      with p Cons.prems kv have "apply_kwargs m pre (h(self_pr m := new)) = (None, h1)"
        by simp
      from Cons.IH [OF this] obtain msg where
        "apply_kwargs m (pre @ (k, v) # post) (h(self_pr m := new)) = (Some (TypeError msg), h1)"
        by blast
      with p Inr kv show ?thesis by simp
    qed
  next
    case y
    with Cons.prems kv
    have "apply_kwargs m pre (snd (setattr_link (self_yr m) k' v' h)) = (None, h1)"
      by simp
    from Cons.IH [OF this] obtain msg where
      "apply_kwargs m (pre @ (k, v) # post) (snd (setattr_link (self_yr m) k' v' h))
         = (Some (TypeError msg), h1)"
      by blast
    with y kv show ?thesis by simp
  next
    case bad
    with Cons.prems kv show ?thesis by simp
  qed
qed

text \<open>
  Claim C2 as stated fails. The key \<open>y\<close> is a state field and a parameter field;
  \<open>autorestore(_p=[50, 0], y=7)\<close> raises TypeError, not entering the block, after
  the parameter vector has been overwritten with \<open>_p\<close>, and leaves it so. (The
  message is the one for a key in neither vector.)
\<close>

theorem bad_key_raises_after_mutation:
  "fst (autorestore (\<lambda>n c. n) (vdp [''epsilon'', ''y'']) (Some [50, 0]) None [(''y'', 7)]
          (\<lambda>w. (None, w)) (vdp_world [1, 0]))
     = Some (TypeError ''Key y not in parameter or rate vectors'') \<and>
   arrays (snd (autorestore (\<lambda>n c. n) (vdp [''epsilon'', ''y'']) (Some [50, 0]) None [(''y'', 7)]
          (\<lambda>w. (None, w)) (vdp_world [1, 0]))) 2 = [50, 0] \<and>
   arrays (vdp_world [1, 0]) 2 = [1, 0]"
  by (simp add: autorestore_def autorestore_enter_def vdp_def vdp_world_def slice_assign_def)

text \<open>
  Claim C2, amended. A named override whose key is in both the state and the
  parameter field names, or in neither, makes autorestore raise TypeError when the
  loop reaches it; the block is not entered and nothing is restored: the world is
  left as the overrides before that key (\<open>_p\<close>, \<open>_y\<close>, the earlier keys) made it.
  With no \<open>_p\<close>, no \<open>_y\<close> and the key first, nothing has been changed.
\<close>

theorem bad_key_raises_after_earlier_overrides:
  fixes w :: "('a, 'c) world" and m :: "('t, 'a, 'd, 'e) namedcvodeint"
  assumes "(k \<in> set (dtype_y m) \<and> k \<in> set (dtype_p m)) \<or>
           (k \<notin> set (dtype_y m) \<and> k \<notin> set (dtype_p m))"
    and "autorestore_enter m p_opt y_opt pre (arrays w) = (None, h1)"
  shows "(\<exists>msg. autorestore RootInit m p_opt y_opt (pre @ (k, v) # post) body w
                  = (Some (TypeError msg), w\<lparr>arrays := h1\<rparr>)) \<and>
         (\<exists>msg. autorestore RootInit m None None ((k, v) # post) body w
                  = (Some (TypeError msg), w))"
proof -
  from assms(1) have b1: "\<not> (k \<in> set (dtype_p m) \<and> k \<notin> set (dtype_y m))"
    and b2: "\<not> (k \<in> set (dtype_y m) \<and> k \<notin> set (dtype_p m))" by auto
  have "\<exists>msg. autorestore_enter m p_opt y_opt (pre @ (k, v) # post) (arrays w)
          = (Some (TypeError msg), h1)"
    using assms(2) apply_kwargs_bad [OF b1 b2, of pre _ h1 v post]
    by (auto simp: autorestore_enter_def split: option.splits sum.splits)
  then have A: "\<exists>msg. autorestore RootInit m p_opt y_opt (pre @ (k, v) # post) body w
                  = (Some (TypeError msg), w\<lparr>arrays := h1\<rparr>)"
    by (auto simp: autorestore_def)
  have "\<exists>msg. autorestore_enter m None None ((k, v) # post) (arrays w)
          = (Some (TypeError msg :: 'e exn), arrays w)"
    using b1 b2 by (auto simp: autorestore_enter_def)
  then have B: "\<exists>msg. autorestore RootInit m None None ((k, v) # post) body w
                  = (Some (TypeError msg), w)"
    by (auto simp: autorestore_def)
  from A B show ?thesis by blast
qed

theorem bad_key_raises_after_earlier_overrides_witness:
  "((''y'' \<in> set (dtype_y (vdp [''epsilon'', ''y''])) \<and> ''y'' \<in> set (dtype_p (vdp [''epsilon'', ''y''])))
     \<or> (''y'' \<notin> set (dtype_y (vdp [''epsilon'', ''y''])) \<and> ''y'' \<notin> set (dtype_p (vdp [''epsilon'', ''y''])))) \<and>
   autorestore_enter (vdp [''epsilon'', ''y'']) None None [(''epsilon'', 5)] (arrays (vdp_world [1, 0]))
     = (None, (arrays (vdp_world [1, 0]))(2 := [5, 0])) \<and>
   (\<exists>msg. autorestore (\<lambda>n c. n) (vdp [''epsilon'', ''y'']) None None
             ([(''epsilon'', 5)] @ (''y'', 7) # []) (\<lambda>w. (None, w)) (vdp_world [1, 0])
           = (Some (TypeError msg), (vdp_world [1, 0])\<lparr>arrays := (arrays (vdp_world [1, 0]))(2 := [5, 0])\<rparr>)) \<and>
   (\<exists>msg. autorestore (\<lambda>n c. n) (vdp [''epsilon'', ''y'']) None None
             ((''y'', 7) # []) (\<lambda>w. (None, w)) (vdp_world [1, 0])
           = (Some (TypeError msg), vdp_world [1, 0]))"
proof -
  have b: "(''y'' \<in> set (dtype_y (vdp [''epsilon'', ''y''])) \<and> ''y'' \<in> set (dtype_p (vdp [''epsilon'', ''y''])))
     \<or> (''y'' \<notin> set (dtype_y (vdp [''epsilon'', ''y''])) \<and> ''y'' \<notin> set (dtype_p (vdp [''epsilon'', ''y''])))"
    by (simp add: vdp_def)
  have e: "autorestore_enter (vdp [''epsilon'', ''y'']) None None [(''epsilon'', 5)] (arrays (vdp_world [1, 0]))
     = (None :: unit exn option, (arrays (vdp_world [1, 0]))(2 := [5, 0]))"
    by (simp add: autorestore_enter_def vdp_def vdp_world_def rec_setitem_def)
  from b e bad_key_raises_after_earlier_overrides [OF b e, of "\<lambda>n c. n" 7 "[]" "\<lambda>w. (None, w)"]
  show ?thesis by blast
qed

section \<open>clamp and dynclamp\<close>

lemma disable_stimulus_Inr:
  "\<exists>h'. disable_stimulus clamped h = Inr h' \<and>
        (\<forall>a. a \<noteq> self_pr clamped \<longrightarrow> h' a = h a) \<and>
        length (h' (self_pr clamped)) = length (h (self_pr clamped)) \<and>
        (\<forall>i. index_of (dtype_p clamped) ''stim_amplitude'' = Some i \<longrightarrow>
             h' (self_pr clamped) = (h (self_pr clamped))[i := 0])"
proof (cases "''stim_amplitude'' \<in> set (dtype_p clamped)")
  case True
  then obtain i where "index_of (dtype_p clamped) ''stim_amplitude'' = Some i"
    using index_of_mem by fastforce
  with True show ?thesis by (simp add: disable_stimulus_def rec_setitem_def)
next
  case False
  then have "index_of (dtype_p clamped) ''stim_amplitude'' = None"
    by (simp add: index_of_None_iff)
  with False show ?thesis by (simp add: disable_stimulus_def)
qed

lemma Namedcvodeint_init_eq:
  "Namedcvodeint_init cv f (self_t m) y (dtype_y m) (self_pr m) (dtype_p m) w =
     (derived m f (next_addr w),
      w\<lparr>arrays := (arrays w)(next_addr w := y, next_addr w + 1 := y),
        solvers := (solvers w)(next_addr w := cv),
        next_addr := next_addr w + 2\<rparr>)"
  by (simp add: Namedcvodeint_init_def Recarraylink_init_def derived_def Let_def)

lemma clamp_enter_shape:
  fixes m :: "('t, 'a::zero, 'd, 'e) namedcvodeint"
  assumes "clamp_enter cv m kwargs w = Inr (clamped, w0)"
  shows "\<exists>i y h. (indices (dtype_y m) (map fst kwargs) :: 'e exn + nat list) = Inr i \<and>
           (set_items (dtype_y m) kwargs (arrays w (self_y m)) :: 'e exn + 'a list) = Inr y \<and>
           clamped = derived m (clamped_rhs (self_f_ode m) i
                                  (if kwargs = [] then Elements [] else Scalar (snd (last kwargs))))
                       (next_addr w) \<and>
           disable_stimulus clamped ((arrays w)(next_addr w := y, next_addr w + 1 := y)) = Inr h \<and>
           w0 = w\<lparr>arrays := h, solvers := (solvers w)(next_addr w := cv),
                  next_addr := next_addr w + 2\<rparr>"
  using assms
  by (auto simp: clamp_enter_def Namedcvodeint_init_eq Let_def split: sum.splits)

lemma dynclamp_enter_shape:
  fixes m :: "('t, 'a::{zero,minus,times,inverse}, 'd, 'e) namedcvodeint"
  assumes "dynclamp_enter cv m setpoint R V ion scale_opt w = Inr (clamped, w0)"
  shows "\<exists>f h. clamped = derived m f (next_addr w) \<and>
           disable_stimulus clamped
             ((arrays w)(next_addr w := arrays w (self_y m), next_addr w + 1 := arrays w (self_y m)))
             = Inr h \<and>
           w0 = w\<lparr>arrays := h, solvers := (solvers w)(next_addr w := cv),
                  next_addr := next_addr w + 2\<rparr>"
  using assms
  by (auto simp: dynclamp_enter_def Namedcvodeint_init_eq Let_def split: sum.splits option.splits)

text \<open>
  Claim C7 fails on the code where two fields are clamped to different values. For
  \<open>clamp(a=1, b=2)\<close> on the model with state \<open>a = 5, b = 6, c = 9\<close>, the initial
  state of the derived model is \<open>[1, 2, 9]\<close>, as the claim says. Its right-hand side,
  called on the working state \<open>[5, 6, 9]\<close>, returns the rates \<open>[0, 0, 22]\<close>: it has run
  the original right-hand side on \<open>[2, 2, 9]\<close>, the copy with the value of the last
  keyword argument at both clamped positions. On \<open>[1, 2, 9]\<close>, the copy with each
  clamped position at its own value, the original right-hand side gives \<open>c\<close> the rate
  12. When the dictionary yields \<open>b\<close> before \<open>a\<close>, the rate is 11, from
  \<open>[1, 1, 9]\<close>.
\<close>

theorem clamped_rhs_overwrites_with_last_value:
  "observe (clamp_enter (0::nat) abc [(''a'', 1), (''b'', 2)] abc_world) [5, 6, 9]
     = Some ([1, 2, 9], Inr ([0, 0, 22], 0)) \<and>
   observe (clamp_enter (0::nat) abc [(''b'', 2), (''a'', 1)] abc_world) [5, 6, 9]
     = Some ([1, 2, 9], Inr ([0, 0, 11], 0)) \<and>
   chain 0 [2, 2, 9] [0, 0, 0] () = Inr ([2, 9, 22], 0) \<and>
   chain 0 [1, 1, 9] [0, 0, 0] () = Inr ([1, 9, 11], 0) \<and>
   chain 0 [1, 2, 9] [0, 0, 0] () = Inr ([2, 9, 12], 0)"
  by (simp add: observe_def clamp_enter_def abc_def abc_world_def chain_def clamped_rhs_def
      fancy_assign_def rec_setitem_def disable_stimulus_def Namedcvodeint_init_def
      Recarraylink_init_def Let_def numeral_3_eq_3)

lemma getattr_link_frame: "a \<noteq> link_xa r \<Longrightarrow> snd (getattr_link r k h) a = h a"
  by (auto simp: getattr_link_def Let_def split: sum.splits option.splits)

lemma setattr_link_frame:
  "a \<noteq> link_x r \<Longrightarrow> a \<noteq> link_xa r \<Longrightarrow> snd (setattr_link r k v h) a = h a"
  by (auto simp: setattr_link_def sync_in_def set_field_def sync_out_def
      split: sum.splits option.splits)

lemma copy_back_frame:
  fixes self :: "('t, 'a, 'd, 'e) namedcvodeint" and h :: "'a heap"
  assumes "a \<noteq> link_x (self_yr self)" and "a \<noteq> link_xa (self_yr self)"
    and "a \<noteq> link_xa (self_yr clamped)"
  shows "snd (copy_back self clamped ks h) a = h a"
proof (induction ks arbitrary: h)
  case Nil
  then show ?case by simp
next
  case (Cons k ks)
  show ?case
  proof (cases "k \<in> set (dtype_y self)")
    case False
    with Cons.IH show ?thesis by simp
  next
    case True
    obtain res :: "'e exn + 'a" and h1 where g: "getattr_link (self_yr clamped) k h = (res, h1)"
      by (cases "getattr_link (self_yr clamped) k h :: ('e exn + 'a) \<times> 'a heap")
    have "snd (getattr_link (self_yr clamped) k h :: ('e exn + 'a) \<times> 'a heap) a = h a"
      by (rule getattr_link_frame [OF assms(3)])
    with g have h1: "h1 a = h a" by simp
    show ?thesis
    proof (cases res)
      case (Inl e)
      with True g h1 show ?thesis by simp
    next
      case (Inr val)
      have "snd (setattr_link (self_yr self) k val h1) a = h1 a"
        using setattr_link_frame [OF assms(1,2)] .
      with True g Inr h1 Cons.IH [of "snd (setattr_link (self_yr self) k val h1)"]
      show ?thesis by simp
    qed
  qed
qed

lemma copy_back_correct:
  fixes self :: "('t, 'a, 'd, 'e) namedcvodeint" and h :: "'a heap"
  assumes ap: "links_apart (self_yr self) (self_yr clamped)"
    and ns: "link_names (self_yr self) = dtype_y self"
    and "link_ok (self_yr self) h" and "link_ok (self_yr clamped) h"
    and "distinct ks" and "set ks \<subseteq> set (link_names (self_yr clamped))"
  shows "\<exists>h'. copy_back self clamped ks h = (None, h') \<and>
           h' (link_x (self_yr clamped)) = h (link_x (self_yr clamped)) \<and>
           link_ok (self_yr self) h' \<and> link_ok (self_yr clamped) h' \<and>
           (\<forall>i < length (dtype_y self).
              h' (link_x (self_yr self)) ! i
                = (if dtype_y self ! i \<in> set ks
                   then h (link_x (self_yr clamped))
                          ! the (index_of (link_names (self_yr clamped)) (dtype_y self ! i))
                   else h (link_x (self_yr self)) ! i))"
  using assms(3-6)
proof (induction ks arbitrary: h)
  case Nil
  then show ?case by simp
next
  case (Cons k ks)
  let ?s = "self_yr self" and ?c = "self_yr clamped"
  from Cons.prems have d: "distinct ks" and nk: "k \<notin> set ks"
    and sub: "set ks \<subseteq> set (link_names ?c)" and kc: "k \<in> set (link_names ?c)" by auto
  show ?case
  proof (cases "k \<in> set (dtype_y self)")
    case False
    from Cons.IH [OF Cons.prems(1,2) d sub] obtain h' where
      h': "copy_back self clamped ks h = (None, h')"
        "h' (link_x ?c) = h (link_x ?c)" "link_ok ?s h'" "link_ok ?c h'"
        "\<forall>i < length (dtype_y self). h' (link_x ?s) ! i
           = (if dtype_y self ! i \<in> set ks
              then h (link_x ?c) ! the (index_of (link_names ?c) (dtype_y self ! i))
              else h (link_x ?s) ! i)"
      by blast
    have "\<forall>i < length (dtype_y self). h' (link_x ?s) ! i
           = (if dtype_y self ! i \<in> set (k # ks)
              then h (link_x ?c) ! the (index_of (link_names ?c) (dtype_y self ! i))
              else h (link_x ?s) ! i)"
      using h'(5) False by auto
    with h'(1-4) False show ?thesis by simp
  next
    case True
    from kc obtain j where j: "index_of (link_names ?c) k = Some j"
      using index_of_mem by fastforce
    from True ns obtain i0 where i0: "index_of (link_names ?s) k = Some i0"
      using index_of_mem by fastforce
    then have i0l: "i0 < length (dtype_y self)" and i0k: "dtype_y self ! i0 = k"
      using index_of_Some_iff ns by fastforce+
    from Cons.prems(1) have s: "link_x ?s \<noteq> link_xa ?s" "distinct (link_names ?s)"
      "length (h (link_x ?s)) = length (link_names ?s)"
      "length (h (link_xa ?s)) = length (link_names ?s)"
      by (simp_all add: link_ok_def)
    from Cons.prems(2) have c: "link_x ?c \<noteq> link_xa ?c" "distinct (link_names ?c)"
      "length (h (link_x ?c)) = length (link_names ?c)"
      "length (h (link_xa ?c)) = length (link_names ?c)"
      by (simp_all add: link_ok_def)
    from ap have a: "link_x ?c \<noteq> link_x ?s" "link_x ?c \<noteq> link_xa ?s"
      "link_xa ?c \<noteq> link_x ?s" "link_xa ?c \<noteq> link_xa ?s"
      by (simp_all add: links_apart_def)
    let ?val = "h (link_x ?c) ! j"
    let ?h1 = "h(link_xa ?c := h (link_x ?c))"
    have g: "getattr_link ?c k h = (Inr ?val :: 'e exn + 'a, ?h1)"
      using c j by (simp add: getattr_link_field)
    let ?b = "(h (link_x ?s))[i0 := ?val]"
    let ?h2 = "?h1(link_xa ?s := ?b, link_x ?s := ?b)"
    have w: "setattr_link ?s k ?val ?h1 = (Written, ?h2)"
      using s a i0 setattr_link_field [of ?s ?h1 k i0 ?val] by simp
    have ok_s: "link_ok ?s ?h2" using s by (simp add: link_ok_def)
    have ok_c: "link_ok ?c ?h2" using c a by (simp add: link_ok_def)
    from Cons.IH [OF ok_s ok_c d sub] obtain h' where
      h': "copy_back self clamped ks ?h2 = (None, h')"
        "h' (link_x ?c) = ?h2 (link_x ?c)" "link_ok ?s h'" "link_ok ?c h'"
        "\<forall>i < length (dtype_y self). h' (link_x ?s) ! i
           = (if dtype_y self ! i \<in> set ks
              then ?h2 (link_x ?c) ! the (index_of (link_names ?c) (dtype_y self ! i))
              else ?h2 (link_x ?s) ! i)"
      by blast
    have xc: "?h2 (link_x ?c) = h (link_x ?c)" using a c by simp
    have step: "copy_back self clamped (k # ks) h = (None, h')"
      using True g w h'(1) by simp
    have "h' (link_x ?s) ! i
           = (if dtype_y self ! i \<in> set (k # ks)
              then h (link_x ?c) ! the (index_of (link_names ?c) (dtype_y self ! i))
              else h (link_x ?s) ! i)" if il: "i < length (dtype_y self)" for i
    proof (cases "i = i0")
      case True
      with h'(5) il i0k nk xc j s ns show ?thesis by simp
    next
      case False
      with s(2) ns il i0l i0k have "dtype_y self ! i \<noteq> k"
        by (metis nth_eq_iff_index_eq)
      with h'(5) il False xc show ?thesis by simp
    qed
    with step h'(2,3,4) xc show ?thesis by simp
  qed
qed

lemma vdp_ok: "model_ok (vdp ps) (vdp_world p) \<longleftrightarrow> distinct ps \<and> length p = length ps"
  by (auto simp: model_ok_def link_ok_def vdp_def vdp_world_def ordinary_attributes_def)

lemma scope_copy_back:
  fixes self clamped :: "('t, 'a, 'd, 'e) namedcvodeint" and w0 :: "('a, 'c) world"
  assumes "body clamped w0 = (out, w1)"
    and "links_apart (self_yr self) (self_yr clamped)"
    and "link_names (self_yr self) = dtype_y self"
    and "link_names (self_yr clamped) = dtype_y clamped"
    and "link_ok (self_yr self) (arrays w1)" and "link_ok (self_yr clamped) (arrays w1)"
  shows "\<exists>w2. scope self clamped body w0 = (out, w2) \<and>
           (\<forall>i < length (dtype_y self).
              arrays w2 (link_x (self_yr self)) ! i
                = (case index_of (dtype_y clamped) (dtype_y self ! i) of
                     Some j \<Rightarrow> arrays w1 (link_x (self_yr clamped)) ! j
                   | None \<Rightarrow> arrays w1 (link_x (self_yr self)) ! i))"
proof -
  from assms(6) have d: "distinct (dtype_y clamped)"
    by (simp add: link_ok_def assms(4))
  have sub: "set (dtype_y clamped) \<subseteq> set (link_names (self_yr clamped))"
    by (simp add: assms(4))
  from copy_back_correct [OF assms(2,3,5,6) d sub] obtain h' where
    h': "copy_back self clamped (dtype_y clamped) (arrays w1) = (None, h')"
      "\<forall>i < length (dtype_y self).
         h' (link_x (self_yr self)) ! i
           = (if dtype_y self ! i \<in> set (dtype_y clamped)
              then arrays w1 (link_x (self_yr clamped))
                     ! the (index_of (link_names (self_yr clamped)) (dtype_y self ! i))
              else arrays w1 (link_x (self_yr self)) ! i)"
    by blast
  have "h' (link_x (self_yr self)) ! i
          = (case index_of (dtype_y clamped) (dtype_y self ! i) of
               Some j \<Rightarrow> arrays w1 (link_x (self_yr clamped)) ! j
             | None \<Rightarrow> arrays w1 (link_x (self_yr self)) ! i)"
    if "i < length (dtype_y self)" for i
  proof (cases "index_of (dtype_y clamped) (dtype_y self ! i)")
    case None
    then have "dtype_y self ! i \<notin> set (dtype_y clamped)" by (simp add: index_of_None_iff)
    with h'(2) that None show ?thesis by simp
  next
    case (Some j)
    then have "dtype_y self ! i \<in> set (dtype_y clamped)"
      using index_of_None_iff [of "dtype_y clamped" "dtype_y self ! i"] by auto
    with h'(2) that Some assms(4) show ?thesis by simp
  qed
  with h'(1) assms(1) show ?thesis by (simp add: scope_def)
qed

text \<open>
  Claim C8. The \<open>finally\<close> block of \<open>clamp\<close> and of \<open>dynclamp\<close> runs whatever the
  outcome \<open>out\<close> of the body, and that outcome is the outcome of the whole. In the
  origin's state vector, afterwards, a field whose name is also a state name of the
  derived model holds the value the derived model's state vector had for that name
  when the body ended, and every other field holds what it held when the body ended.
  The two links are over four different arrays, of the lengths of their dtypes, and
  no state name of the derived model is the name of an ordinary attribute of its link
  (\<open>getattr\<close> would return that attribute and not the field).
\<close>

theorem scope_exit_copies_shared_fields:
  fixes self clamped :: "('t, 'a::{zero,minus,times,inverse}, 'd, 'e) namedcvodeint"
    and w w0 :: "('a, 'c) world"
  assumes "body clamped w0 = (out, w1)"
    and "links_apart (self_yr self) (self_yr clamped)"
    and "link_names (self_yr self) = dtype_y self"
    and "link_names (self_yr clamped) = dtype_y clamped"
    and "link_ok (self_yr self) (arrays w1)" and "link_ok (self_yr clamped) (arrays w1)"
    and "\<forall>k \<in> set (dtype_y clamped). k \<notin> set ordinary_attributes"
  shows "\<exists>w2. scope self clamped body w0 = (out, w2) \<and>
           (\<forall>i < length (dtype_y self).
              arrays w2 (link_x (self_yr self)) ! i
                = (case index_of (dtype_y clamped) (dtype_y self ! i) of
                     Some j \<Rightarrow> arrays w1 (link_x (self_yr clamped)) ! j
                   | None \<Rightarrow> arrays w1 (link_x (self_yr self)) ! i)) \<and>
           (clamp_enter new_cvode self kwargs w = Inr (clamped, w0) \<longrightarrow>
              clamp new_cvode self kwargs body w = (out, w2)) \<and>
           (dynclamp_enter new_cvode self setpoint R V ion scale_opt w = Inr (clamped, w0) \<longrightarrow>
              dynclamp new_cvode self setpoint R V ion scale_opt body w = (out, w2))"
proof -
  from scope_copy_back [where body = body and clamped = clamped and ?w0.0 = w0, OF assms(1-6)]
  obtain w2 where
    w2: "scope self clamped body w0 = (out, w2)"
      "\<forall>i < length (dtype_y self).
              arrays w2 (link_x (self_yr self)) ! i
                = (case index_of (dtype_y clamped) (dtype_y self ! i) of
                     Some j \<Rightarrow> arrays w1 (link_x (self_yr clamped)) ! j
                   | None \<Rightarrow> arrays w1 (link_x (self_yr self)) ! i)"
    by blast
  have "clamp_enter new_cvode self kwargs w = Inr (clamped, w0) \<longrightarrow>
              clamp new_cvode self kwargs body w = (out, w2)"
    using w2(1) by (simp add: clamp_def)
  moreover have "dynclamp_enter new_cvode self setpoint R V ion scale_opt w = Inr (clamped, w0) \<longrightarrow>
              dynclamp new_cvode self setpoint R V ion scale_opt body w = (out, w2)"
    using w2(1) by (simp add: dynclamp_def)
  ultimately show ?thesis using w2 by blast
qed

lemma scope_frame:
  fixes self clamped :: "('t, 'a, 'd, 'e) namedcvodeint" and w0 :: "('a, 'c) world"
  assumes "a \<noteq> link_x (self_yr self)" and "a \<noteq> link_xa (self_yr self)"
    and "a \<noteq> link_xa (self_yr clamped)"
  shows "arrays (snd (scope self clamped body w0)) a = arrays (snd (body clamped w0)) a"
proof -
  obtain out w1 where b: "body clamped w0 = (out, w1)" by (cases "body clamped w0")
  obtain e h where c: "copy_back self clamped (dtype_y clamped) (arrays w1) = (e, h)"
    by (cases "copy_back self clamped (dtype_y clamped) (arrays w1)")
  from copy_back_frame [OF assms, of "dtype_y clamped" "arrays w1"] c have "h a = arrays w1 a"
    by simp
  with b c show ?thesis by (cases e) (simp_all add: scope_def)
qed

text \<open>
  Claim C10. When the origin's parameter names contain \<open>stim_amplitude\<close>, the world
  in which the \<open>with\<close> block of \<open>clamp\<close> or \<open>dynclamp\<close> is entered has that
  parameter at 0: the derived model's parameter array is the origin's own array (one
  address), all other parameters are as before. The \<open>finally\<close> block leaves the
  parameter array as the body left it, so nothing puts the old value back.
\<close>

theorem stimulus_zeroed_in_shared_parameters:
  fixes m clamped :: "('t, 'a::{zero,minus,times,inverse}, 'd, 'e) namedcvodeint"
    and w w0 :: "('a, 'c) world"
  assumes "model_ok m w" and "''stim_amplitude'' \<in> set (dtype_p m)"
    and "clamp_enter new_cvode m kwargs w = Inr (clamped, w0) \<or>
         dynclamp_enter new_cvode m setpoint R V ion scale_opt w = Inr (clamped, w0)"
  shows "self_pr clamped = self_pr m \<and>
         (\<exists>i < length (arrays w (self_pr m)).
            index_of (dtype_p m) ''stim_amplitude'' = Some i \<and>
            arrays w0 (self_pr m) = (arrays w (self_pr m))[i := 0] \<and>
            arrays w0 (self_pr m) ! i = 0) \<and>
         arrays (snd (scope m clamped body w0)) (self_pr m)
           = arrays (snd (body clamped w0)) (self_pr m) \<and>
         (clamp_enter new_cvode m kwargs w = Inr (clamped, w0) \<longrightarrow>
            clamp new_cvode m kwargs body w = scope m clamped body w0) \<and>
         (dynclamp_enter new_cvode m setpoint R V ion scale_opt w = Inr (clamped, w0) \<longrightarrow>
            dynclamp new_cvode m setpoint R V ion scale_opt body w = scope m clamped body w0)"
proof -
  let ?n = "next_addr w"
  from assms(1) have pr: "self_pr m < ?n" "self_pr m \<noteq> self_y m"
    "self_pr m \<noteq> link_xa (self_yr m)" "link_x (self_yr m) = self_y m"
    "length (arrays w (self_pr m)) = length (dtype_p m)"
    by (simp_all add: model_ok_def)
  from assms(2) obtain i where i: "index_of (dtype_p m) ''stim_amplitude'' = Some i"
    using index_of_mem by fastforce
  then have il: "i < length (arrays w (self_pr m))"
    using index_of_Some_iff pr(5) by fastforce
  from assms(3) obtain f y h where
    c: "clamped = derived m f ?n"
    and h: "disable_stimulus clamped ((arrays w)(?n := y, ?n + 1 := y)) = Inr h"
    and w0: "w0 = w\<lparr>arrays := h, solvers := (solvers w)(?n := new_cvode), next_addr := ?n + 2\<rparr>"
    using clamp_enter_shape [of new_cvode m kwargs w clamped w0]
      dynclamp_enter_shape [of new_cvode m setpoint R V ion scale_opt w clamped w0]
    by blast
  have pc: "self_pr clamped = self_pr m" and dp: "dtype_p clamped = dtype_p m"
    and xa: "link_xa (self_yr clamped) = ?n + 1"
    using c by (simp_all add: derived_def)
  from disable_stimulus_Inr [of clamped "(arrays w)(?n := y, ?n + 1 := y)"] h i pr(1) pc dp
  have z: "arrays w0 (self_pr m) = (arrays w (self_pr m))[i := 0]"
    by (simp add: w0)
  with il have z0: "arrays w0 (self_pr m) ! i = 0" by simp
  have fr: "arrays (snd (scope m clamped body w0)) (self_pr m)
           = arrays (snd (body clamped w0)) (self_pr m)"
    using pr xa by (intro scope_frame) simp_all
  have "clamp_enter new_cvode m kwargs w = Inr (clamped, w0) \<longrightarrow>
            clamp new_cvode m kwargs body w = scope m clamped body w0"
    by (simp add: clamp_def)
  moreover have "dynclamp_enter new_cvode m setpoint R V ion scale_opt w = Inr (clamped, w0) \<longrightarrow>
            dynclamp new_cvode m setpoint R V ion scale_opt body w = scope m clamped body w0"
    by (simp add: dynclamp_def)
  ultimately show ?thesis using pc i il z z0 fr by blast
qed

lemma vdp_entered:
  "clamp_enter (0::nat) (vdp ps) [(''x'', 1 / 2)] (vdp_world p) =
     Inr (vdp_clamped ps,
          \<lparr>arrays = (\<lambda>a. if a = 2 \<and> ''stim_amplitude'' \<in> set ps
                              then p[the (index_of ps ''stim_amplitude'') := 0]
                            else if a = 3 \<or> a = 4 then [1 / 2, 0]
                            else arrays (vdp_world p) a),
           solvers = (\<lambda>_. 0), next_addr = 5\<rparr>)"
  "dynclamp_enter (0::nat) (vdp ps) (- 140) (1 / 50) ''x'' ''y'' (Some 0) (vdp_world p) =
     Inr (vdp_dynclamped ps,
          \<lparr>arrays = (\<lambda>a. if a = 2 \<and> ''stim_amplitude'' \<in> set ps
                              then p[the (index_of ps ''stim_amplitude'') := 0]
                            else if a = 3 \<or> a = 4 then [- 2, 0]
                            else arrays (vdp_world p) a),
           solvers = (\<lambda>_. 0), next_addr = 5\<rparr>)"
proof -
  have "\<exists>i. index_of ps ''stim_amplitude'' = Some i" if "''stim_amplitude'' \<in> set ps"
    using that by (rule index_of_mem)
  then show
    "clamp_enter (0::nat) (vdp ps) [(''x'', 1 / 2)] (vdp_world p) =
     Inr (vdp_clamped ps,
          \<lparr>arrays = (\<lambda>a. if a = 2 \<and> ''stim_amplitude'' \<in> set ps
                              then p[the (index_of ps ''stim_amplitude'') := 0]
                            else if a = 3 \<or> a = 4 then [1 / 2, 0]
                            else arrays (vdp_world p) a),
           solvers = (\<lambda>_. 0), next_addr = 5\<rparr>)"
    "dynclamp_enter (0::nat) (vdp ps) (- 140) (1 / 50) ''x'' ''y'' (Some 0) (vdp_world p) =
     Inr (vdp_dynclamped ps,
          \<lparr>arrays = (\<lambda>a. if a = 2 \<and> ''stim_amplitude'' \<in> set ps
                              then p[the (index_of ps ''stim_amplitude'') := 0]
                            else if a = 3 \<or> a = 4 then [- 2, 0]
                            else arrays (vdp_world p) a),
           solvers = (\<lambda>_. 0), next_addr = 5\<rparr>)"
    by (auto simp: vdp_def vdp_world_def vdp_clamped_def vdp_dynclamped_def clamp_enter_def
        dynclamp_enter_def Namedcvodeint_init_def Recarraylink_init_def derived_def
        rec_setitem_def disable_stimulus_def Let_def fun_eq_iff)
qed

theorem scope_exit_copies_shared_fields_witness:
  "links_apart (self_yr (vdp [''epsilon''])) (self_yr (vdp_clamped [''epsilon''])) \<and>
   links_apart (self_yr (vdp [''epsilon''])) (self_yr (vdp_dynclamped [''epsilon''])) \<and>
   dtype_y (vdp_clamped [''epsilon'']) = [''x'', ''y''] \<and>
   dtype_y (vdp_dynclamped [''epsilon'']) = [''x'', ''y''] \<and>
   ''x'' \<notin> set ordinary_attributes \<and> ''y'' \<notin> set ordinary_attributes \<and>
   (\<exists>w0. clamp_enter (0::nat) (vdp [''epsilon'']) [(''x'', 1 / 2)] (vdp_world [1])
           = Inr (vdp_clamped [''epsilon''], w0)) \<and>
   fst (clamp (0::nat) (vdp [''epsilon'']) [(''x'', 1 / 2)] vdp_body (vdp_world [1]))
     = Some (Raised ()) \<and>
   arrays (snd (clamp (0::nat) (vdp [''epsilon'']) [(''x'', 1 / 2)] vdp_body (vdp_world [1])))
     (self_y (vdp [''epsilon''])) ! 0 = 1 / 2 \<and>
   arrays (snd (clamp (0::nat) (vdp [''epsilon'']) [(''x'', 1 / 2)] vdp_body (vdp_world [1])))
     (self_y (vdp [''epsilon''])) ! 1 = 7 \<and>
   (\<exists>w0. dynclamp_enter (0::nat) (vdp [''epsilon'']) (- 140) (1 / 50) ''x'' ''y'' (Some 0)
            (vdp_world [1]) = Inr (vdp_dynclamped [''epsilon''], w0)) \<and>
   fst (dynclamp (0::nat) (vdp [''epsilon'']) (- 140) (1 / 50) ''x'' ''y'' (Some 0) vdp_body
          (vdp_world [1])) = Some (Raised ()) \<and>
   arrays (snd (dynclamp (0::nat) (vdp [''epsilon'']) (- 140) (1 / 50) ''x'' ''y'' (Some 0)
                  vdp_body (vdp_world [1]))) (self_y (vdp [''epsilon''])) ! 0 = 1 / 2 \<and>
   arrays (snd (dynclamp (0::nat) (vdp [''epsilon'']) (- 140) (1 / 50) ''x'' ''y'' (Some 0)
                  vdp_body (vdp_world [1]))) (self_y (vdp [''epsilon''])) ! 1 = 7"
proof -
  let ?m = "vdp [''epsilon'']" and ?c = "vdp_clamped [''epsilon'']"
    and ?d = "vdp_dynclamped [''epsilon'']"
  note e = vdp_entered [of "[''epsilon'']" "[1]"]
  obtain w0 where w0: "clamp_enter (0::nat) ?m [(''x'', 1 / 2)] (vdp_world [1]) = Inr (?c, w0)"
    and a0: "arrays w0 = (\<lambda>a. if a = 3 \<or> a = 4 then [1 / 2, 0] else arrays (vdp_world [1]) a)"
    using e(1) by simp
  obtain v0 where
    v0: "dynclamp_enter (0::nat) ?m (- 140) (1 / 50) ''x'' ''y'' (Some 0) (vdp_world [1])
           = Inr (?d, v0)"
    and b0: "arrays v0 = (\<lambda>a. if a = 3 \<or> a = 4 then [- 2, 0] else arrays (vdp_world [1]) a)"
    using e(2) by simp
  let ?w1 = "w0\<lparr>arrays := (arrays w0)(3 := [1 / 2, 7])\<rparr>"
  let ?v1 = "v0\<lparr>arrays := (arrays v0)(3 := [1 / 2, 7])\<rparr>"
  have b: "vdp_body ?c w0 = (Some (Raised ()), ?w1)" "vdp_body ?d v0 = (Some (Raised ()), ?v1)"
    by (simp_all add: vdp_body_def vdp_clamped_def vdp_dynclamped_def derived_def)
  have ap: "links_apart (self_yr ?m) (self_yr ?c)" "links_apart (self_yr ?m) (self_yr ?d)"
    and n: "link_names (self_yr ?m) = dtype_y ?m" "link_names (self_yr ?c) = dtype_y ?c"
      "link_names (self_yr ?d) = dtype_y ?d"
    and oa: "\<forall>k \<in> set (dtype_y ?c). k \<notin> set ordinary_attributes"
      "\<forall>k \<in> set (dtype_y ?d). k \<notin> set ordinary_attributes"
    by (simp_all add: vdp_def vdp_clamped_def vdp_dynclamped_def derived_def links_apart_def
        ordinary_attributes_def)
  have ok: "link_ok (self_yr ?m) (arrays ?w1)" "link_ok (self_yr ?c) (arrays ?w1)"
    "link_ok (self_yr ?m) (arrays ?v1)" "link_ok (self_yr ?d) (arrays ?v1)"
    by (simp_all add: a0 b0 vdp_def vdp_world_def vdp_clamped_def vdp_dynclamped_def derived_def
        link_ok_def)
  from scope_exit_copies_shared_fields [where body = vdp_body,
      OF b(1) ap(1) n(1,2) ok(1,2) oa(1), of "0::nat" "[(''x'', 1 / 2)]" "vdp_world [1]"] w0
  obtain w2 where c: "clamp (0::nat) ?m [(''x'', 1 / 2)] vdp_body (vdp_world [1])
                        = (Some (Raised ()), w2)"
    and cv: "\<forall>i < length (dtype_y ?m).
               arrays w2 (link_x (self_yr ?m)) ! i
                 = (case index_of (dtype_y ?c) (dtype_y ?m ! i) of
                      Some j \<Rightarrow> arrays ?w1 (link_x (self_yr ?c)) ! j
                    | None \<Rightarrow> arrays ?w1 (link_x (self_yr ?m)) ! i)"
    by blast
  from cv have c01: "arrays w2 (self_y ?m) ! 0 = 1 / 2" "arrays w2 (self_y ?m) ! 1 = 7"
    by (simp_all add: vdp_def vdp_clamped_def derived_def)
  from scope_exit_copies_shared_fields [where body = vdp_body,
      OF b(2) ap(2) n(1,3) ok(3,4) oa(2),
      where new_cvode = "0::nat" and w = "vdp_world [1]" and setpoint = "- 140"
        and R = "1 / 50" and V = "''x''" and ion = "''y''" and scale_opt = "Some 0"] v0
  obtain v2 where d: "dynclamp (0::nat) ?m (- 140) (1 / 50) ''x'' ''y'' (Some 0) vdp_body
                        (vdp_world [1]) = (Some (Raised ()), v2)"
    and dv: "\<forall>i < length (dtype_y ?m).
               arrays v2 (link_x (self_yr ?m)) ! i
                 = (case index_of (dtype_y ?d) (dtype_y ?m ! i) of
                      Some j \<Rightarrow> arrays ?v1 (link_x (self_yr ?d)) ! j
                    | None \<Rightarrow> arrays ?v1 (link_x (self_yr ?m)) ! i)"
    by blast
  from dv have d01: "arrays v2 (self_y ?m) ! 0 = 1 / 2" "arrays v2 (self_y ?m) ! 1 = 7"
    by (simp_all add: vdp_def vdp_dynclamped_def derived_def)
  have dt: "dtype_y ?c = [''x'', ''y'']" "dtype_y ?d = [''x'', ''y'']"
    "''x'' \<notin> set ordinary_attributes" "''y'' \<notin> set ordinary_attributes"
    by (simp_all add: vdp_def vdp_clamped_def vdp_dynclamped_def derived_def
        ordinary_attributes_def)
  from ap dt w0 v0 c c01 d d01 show ?thesis by auto
qed

theorem stimulus_zeroed_in_shared_parameters_witness:
  "model_ok (vdp [''epsilon'', ''stim_amplitude'']) (vdp_world [1, 9]) \<and>
   ''stim_amplitude'' \<in> set (dtype_p (vdp [''epsilon'', ''stim_amplitude''])) \<and>
   arrays (vdp_world [1, 9]) (self_pr (vdp [''epsilon'', ''stim_amplitude''])) = [1, 9] \<and>
   (\<exists>w0. clamp_enter (0::nat) (vdp [''epsilon'', ''stim_amplitude'']) [(''x'', 1 / 2)]
            (vdp_world [1, 9]) = Inr (vdp_clamped [''epsilon'', ''stim_amplitude''], w0) \<and>
          arrays w0 (self_pr (vdp [''epsilon'', ''stim_amplitude''])) = [1, 0]) \<and>
   self_pr (vdp_clamped [''epsilon'', ''stim_amplitude''])
     = self_pr (vdp [''epsilon'', ''stim_amplitude'']) \<and>
   arrays (snd (clamp (0::nat) (vdp [''epsilon'', ''stim_amplitude'']) [(''x'', 1 / 2)] vdp_body
                  (vdp_world [1, 9]))) (self_pr (vdp [''epsilon'', ''stim_amplitude''])) = [1, 0] \<and>
   (\<exists>w0. dynclamp_enter (0::nat) (vdp [''epsilon'', ''stim_amplitude'']) (- 140) (1 / 50)
            ''x'' ''y'' (Some 0) (vdp_world [1, 9])
            = Inr (vdp_dynclamped [''epsilon'', ''stim_amplitude''], w0) \<and>
          arrays w0 (self_pr (vdp [''epsilon'', ''stim_amplitude''])) = [1, 0]) \<and>
   self_pr (vdp_dynclamped [''epsilon'', ''stim_amplitude''])
     = self_pr (vdp [''epsilon'', ''stim_amplitude'']) \<and>
   arrays (snd (dynclamp (0::nat) (vdp [''epsilon'', ''stim_amplitude'']) (- 140) (1 / 50)
                  ''x'' ''y'' (Some 0) vdp_body (vdp_world [1, 9])))
     (self_pr (vdp [''epsilon'', ''stim_amplitude''])) = [1, 0]"
proof -
  let ?m = "vdp [''epsilon'', ''stim_amplitude'']"
    and ?c = "vdp_clamped [''epsilon'', ''stim_amplitude'']"
    and ?d = "vdp_dynclamped [''epsilon'', ''stim_amplitude'']"
  let ?w = "vdp_world [1, 9]"
  note e = vdp_entered [of "[''epsilon'', ''stim_amplitude'']" "[1, 9]"]
  have pr: "self_pr ?m = 2" by (simp add: vdp_def)
  obtain w0 where w0: "clamp_enter (0::nat) ?m [(''x'', 1 / 2)] ?w = Inr (?c, w0)"
    and a0: "arrays w0 2 = [1, 0]"
    using e(1) by simp
  obtain v0 where
    v0: "dynclamp_enter (0::nat) ?m (- 140) (1 / 50) ''x'' ''y'' (Some 0) ?w = Inr (?d, v0)"
    and b0: "arrays v0 2 = [1, 0]"
    using e(2) by simp
  have ok: "model_ok ?m ?w" by (simp add: vdp_ok)
  have mem: "''stim_amplitude'' \<in> set (dtype_p ?m)" by (simp add: vdp_def)
  have p: "arrays ?w (self_pr ?m) = [1, 9]" by (simp add: vdp_def vdp_world_def)
  have b: "arrays (snd (vdp_body ?c w0)) 2 = [1, 0]" "arrays (snd (vdp_body ?d v0)) 2 = [1, 0]"
    using a0 b0 by (simp_all add: vdp_body_def vdp_clamped_def vdp_dynclamped_def derived_def)
  note c = stimulus_zeroed_in_shared_parameters [where body = vdp_body, OF ok mem disjI1, OF w0]
  note d = stimulus_zeroed_in_shared_parameters [where body = vdp_body, OF ok mem disjI2, OF v0]
  from c w0 b(1) have c': "self_pr ?c = self_pr ?m"
    "arrays (snd (clamp (0::nat) ?m [(''x'', 1 / 2)] vdp_body ?w)) (self_pr ?m) = [1, 0]"
    by (simp_all add: pr)
  from d v0 b(2) have d': "self_pr ?d = self_pr ?m"
    "arrays (snd (dynclamp (0::nat) ?m (- 140) (1 / 50) ''x'' ''y'' (Some 0) vdp_body ?w))
       (self_pr ?m) = [1, 0]"
    by (simp_all add: pr)
  from ok mem p w0 a0 v0 b0 c' d' show ?thesis by (auto simp: pr)
qed

section \<open>Job identifiers\<close>

text \<open>
  Claim C4 fails on the code. With the settings of the docstring and a working
  directory that holds a file \<open>error.log\<close>, three calls of \<open>find_jobID\<close> return 0, 1
  and 2 and leave the three timeout files, as the claim says. After \<open>end_jobID\<close> for
  each of them the directory holds \<open>error.log\<close> and the job file: no timeout file
  \<open>./job_timeout_k\<close> and no error file \<open>./error_k.pickle\<close> of any job. The next call
  does not return \<open>Nsims\<close>: it raises ValueError, because it takes \<open>error.log\<close> for
  an error file and finds no job id in the name (the scan is run in the order of the
  listing and in the reverse order). Without that file it returns \<open>Nsims\<close> and
  changes nothing.
\<close>

theorem unrelated_error_name_breaks_sentinel:
  "find_jobIDs 3 (\<lambda>files. files) doc_settings (work [(''error.log'', File ''log'')])
     = Inr ([0, 1, 2],
            work [(''error.log'', File ''log''), (''job'', File ''3''),
                  (''job_timeout_0'', File []), (''job_timeout_1'', File []),
                  (''job_timeout_2'', File [])]) \<and>
   end_jobIDs doc_settings [0, 1, 2]
       (work [(''error.log'', File ''log''), (''job'', File ''3''),
              (''job_timeout_0'', File []), (''job_timeout_1'', File []),
              (''job_timeout_2'', File [])])
     = Inr (work [(''error.log'', File ''log''), (''job'', File ''3'')]) \<and>
   listdir (SimID doc_settings) (work [(''error.log'', File ''log''), (''job'', File ''3'')])
     = Inr [''error.log'', ''job''] \<and>
   map (\<lambda>k. path_exists (work [(''error.log'', File ''log''), (''job'', File ''3'')])
              (timeout_path doc_settings k)) [0, 1, 2] = [False, False, False] \<and>
   map (\<lambda>k. path_exists (work [(''error.log'', File ''log''), (''job'', File ''3'')])
              (error_path doc_settings k)) [0, 1, 2] = [False, False, False] \<and>
   Nsims doc_settings = 3 \<and>
   find_jobID (\<lambda>files. files) doc_settings
       (work [(''error.log'', File ''log''), (''job'', File ''3'')]) = Inl ValueError \<and>
   find_jobID rev doc_settings
       (work [(''error.log'', File ''log''), (''job'', File ''3'')]) = Inl ValueError \<and>
   find_jobID (\<lambda>files. files) doc_settings (work [(''job'', File ''3'')])
     = Inr (3, work [(''job'', File ''3'')])"
  by code_simp

text \<open>
  Claim C6 fails on the code. With the job file named \<open>./sim\<close> and \<open>Nsims = 3\<close>, the
  ids 0, 1, 2 are handed out and not released: the timeout files \<open>./sim_timeout_0\<close>,
  \<open>./sim_timeout_1\<close>, \<open>./sim_timeout_2\<close> are present in the scanned directory and
  no error file is. The next call returns 3 and not one of 0, 1, 2: it looks for
  \<open>job_timeout\<close> in the names (the scan is run in the order of the listing and in
  the reverse order). With the job file named \<open>./job\<close> the same call returns 2, the
  id of the timeout file it visits last.
\<close>

theorem timeout_files_of_other_name_are_not_found:
  "Nsims (doc_settings\<lparr>jobfile := ''./sim''\<rparr>) = 3 \<and>
   find_jobIDs 3 (\<lambda>files. files) (doc_settings\<lparr>jobfile := ''./sim''\<rparr>) (work [])
     = Inr ([0, 1, 2],
            work [(''sim'', File ''3''), (''sim_timeout_0'', File []),
                  (''sim_timeout_1'', File []), (''sim_timeout_2'', File [])]) \<and>
   map (\<lambda>k. path_exists
               (work [(''sim'', File ''3''), (''sim_timeout_0'', File []),
                      (''sim_timeout_1'', File []), (''sim_timeout_2'', File [])])
               (timeout_path (doc_settings\<lparr>jobfile := ''./sim''\<rparr>) k)) [0, 1, 2]
     = [True, True, True] \<and>
   listdir (SimID (doc_settings\<lparr>jobfile := ''./sim''\<rparr>))
       (work [(''sim'', File ''3''), (''sim_timeout_0'', File []),
              (''sim_timeout_1'', File []), (''sim_timeout_2'', File [])])
     = Inr [''sim'', ''sim_timeout_0'', ''sim_timeout_1'', ''sim_timeout_2''] \<and>
   find_jobID (\<lambda>files. files) (doc_settings\<lparr>jobfile := ''./sim''\<rparr>)
       (work [(''sim'', File ''3''), (''sim_timeout_0'', File []),
              (''sim_timeout_1'', File []), (''sim_timeout_2'', File [])])
     = Inr (3, work [(''sim'', File ''3''), (''sim_timeout_0'', File []),
                     (''sim_timeout_1'', File []), (''sim_timeout_2'', File [])]) \<and>
   find_jobID rev (doc_settings\<lparr>jobfile := ''./sim''\<rparr>)
       (work [(''sim'', File ''3''), (''sim_timeout_0'', File []),
              (''sim_timeout_1'', File []), (''sim_timeout_2'', File [])])
     = Inr (3, work [(''sim'', File ''3''), (''sim_timeout_0'', File []),
                     (''sim_timeout_1'', File []), (''sim_timeout_2'', File [])]) \<and>
   find_jobID (\<lambda>files. files) doc_settings
       (work [(''job'', File ''3''), (''job_timeout_0'', File []),
              (''job_timeout_1'', File []), (''job_timeout_2'', File [])])
     = Inr (2, work [(''job'', File ''3''), (''job_timeout_0'', File []),
                     (''job_timeout_1'', File []), (''job_timeout_2'', File [])])"
  by code_simp

text \<open>
  Claim C5 fails on the code. With the error files named \<open>./fail_k.pickle\<close>, all ids
  issued, the error file of job 2 and the timeout file of job 1, \<open>find_jobID\<close> returns
  1, the id that has merely timed out, and renames nothing: it looks for \<open>error\<close>
  in the names (the scan is run in the order of the listing and in the reverse
  order). With the error files named \<open>./error_k.pickle\<close> the same call returns 2
  and renames the error file.
\<close>

theorem error_files_of_other_name_are_not_found:
  "Nsims (doc_settings\<lparr>errorfile := ''./fail''\<rparr>) = 3 \<and>
   error_path (doc_settings\<lparr>errorfile := ''./fail''\<rparr>) 2 = ''./fail_2.pickle'' \<and>
   timeout_path (doc_settings\<lparr>errorfile := ''./fail''\<rparr>) 1 = ''./job_timeout_1'' \<and>
   listdir (SimID (doc_settings\<lparr>errorfile := ''./fail''\<rparr>))
       (work [(''job'', File ''3''), (''job_timeout_1'', File []),
              (''fail_2.pickle'', File ''payload'')])
     = Inr [''job'', ''job_timeout_1'', ''fail_2.pickle''] \<and>
   find_jobID (\<lambda>files. files) (doc_settings\<lparr>errorfile := ''./fail''\<rparr>)
       (work [(''job'', File ''3''), (''job_timeout_1'', File []),
              (''fail_2.pickle'', File ''payload'')])
     = Inr (1, work [(''job'', File ''3''), (''job_timeout_1'', File []),
                     (''fail_2.pickle'', File ''payload'')]) \<and>
   find_jobID rev (doc_settings\<lparr>errorfile := ''./fail''\<rparr>)
       (work [(''job'', File ''3''), (''job_timeout_1'', File []),
              (''fail_2.pickle'', File ''payload'')])
     = Inr (1, work [(''job'', File ''3''), (''job_timeout_1'', File []),
                     (''fail_2.pickle'', File ''payload'')]) \<and>
   find_jobID (\<lambda>files. files) doc_settings
       (work [(''job'', File ''3''), (''job_timeout_1'', File []),
              (''error_2.pickle'', File ''payload'')])
     = Inr (2, work [(''job'', File ''3''), (''job_timeout_1'', File []),
                     (''job_redone_2.pickle'', File ''payload''),
                     (''job_timeout_2'', File [])])"
  by code_simp

end
